theory Spec2Isabelle
  imports
    Complex_Main
    "HOL-Library.AList"
    "HOL-Library.Char_ord"
    "HOL-Library.List_Lexorder"
    "HOL-Library.Product_Lexorder"
begin

section \<open>Multi-tenant CRM API (backend/src/index.ts): data model\<close>

text \<open>
  The backend is a set of request handlers over a relational store. Each table is a list
  of rows in insertion order, each handler a function from the store (and the request) to
  a response and the new store. Instants are milliseconds since the epoch, as
  \<^verbatim>\<open>Date.getTime()\<close> gives them; the fixed-width strings of \<^verbatim>\<open>toISOString()\<close> compare as
  these numbers do. JavaScript numbers that carry money or percentages are rationals
  (rounding of doubles is not part of the model), identifiers and counters are integers.
  Strings are byte strings.
\<close>

subsection \<open>Responses\<close>

text \<open>\<^verbatim>\<open>c.json(value, status)\<close>: the value is an error object or the handler's data.\<close>

datatype 'a body = Error string | ErrorDetails string string | Data 'a

type_synonym 'a response = "'a body \<times> nat"

subsection \<open>Tables (schema.sql)\<close>

record tenant_row =
  t_id :: int
  t_tenant_key :: string
  t_company_name :: string
  t_is_active :: int
  t_contact_email :: string

record user_row =
  u_id :: int
  u_tenant_id :: int
  u_email :: string
  u_password_hash :: string
  u_first_name :: "string option"
  u_last_name :: "string option"
  u_role :: string
  u_is_active :: int
  u_last_login :: "int option"

record company_row =
  co_id :: int
  co_tenant_id :: int
  co_name :: string
  co_type :: string
  co_industry :: "string option"
  co_website :: "string option"
  co_naics_codes :: "string option"
  co_duns_number :: "string option"
  co_cage_code :: "string option"

record contact_row =
  ct_id :: int
  ct_tenant_id :: int
  ct_first_name :: string
  ct_last_name :: string
  ct_email :: "string option"
  ct_phone :: "string option"
  ct_title :: "string option"
  ct_company_id :: "int option"
  ct_contact_role :: "string option"
  ct_is_decision_maker :: int
  ct_notes :: "string option"

record opportunity_row =
  o_id :: int
  o_tenant_id :: int
  o_name :: string
  o_company_id :: "int option"
  o_type :: string
  o_stage :: string
  o_probability :: rat
  o_amount :: "rat option"
  o_expected_revenue :: "rat option"
  o_close_date :: "string option"
  o_description :: "string option"
  o_owner_id :: "int option"
  o_created_at :: int
  o_updated_at :: int

record capture_row =
  cap_id :: int
  cap_tenant_id :: int
  cap_name :: string
  cap_customer_name :: string
  cap_capture_type :: string
  cap_current_phase :: string
  cap_pwin :: "rat option"
  cap_contract_value :: "rat option"
  cap_rfp_release_date :: "string option"
  cap_proposal_due_date :: "string option"
  cap_capture_manager_id :: "int option"
  cap_created_at :: int

record activity_row =
  al_tenant_id :: int
  al_user_id :: int
  al_activity_type :: string
  al_entity_type :: "string option"
  al_entity_id :: "int option"
  al_description :: string

record rate_limit_row =
  rl_identifier :: string
  rl_endpoint :: string
  rl_count :: int
  rl_window_start :: int

record db =
  tenants :: "tenant_row list"
  users :: "user_row list"
  companies :: "company_row list"
  contacts :: "contact_row list"
  opportunities :: "opportunity_row list"
  captures :: "capture_row list"
  activity_log :: "activity_row list"
  rate_limits :: "rate_limit_row list"

definition empty_db :: db where
  "empty_db = \<lparr>tenants = [], users = [], companies = [], contacts = [], opportunities = [],
     captures = [], activity_log = [], rate_limits = []\<rparr>"

text \<open>
  \<^verbatim>\<open>INTEGER PRIMARY KEY AUTOINCREMENT\<close>: the key of a new row is one more than the largest
  key in use (no handler deletes from these tables).
\<close>

definition last_row_id :: "int list \<Rightarrow> int" where
  "last_row_id ids = fold max ids 0 + 1"

text \<open>The verified identity that the middleware attaches to a request (type \<^verbatim>\<open>Variables\<close>).\<close>

record user =
  userId :: int
  tenantId :: int
  email :: string
  role :: string

subsection \<open>JavaScript's \<^verbatim>\<open>||\<close> on optional request fields\<close>

text \<open>
  A field of a parsed request body is absent (\<^verbatim>\<open>undefined\<close>) or present. \<^verbatim>\<open>x || d\<close> is
  \<open>d\<close> when \<open>x\<close> is absent, the number 0 or the empty string.
\<close>

definition num_or :: "rat option \<Rightarrow> rat \<Rightarrow> rat" where
  "num_or x d = (case x of None \<Rightarrow> d | Some v \<Rightarrow> if v = 0 then d else v)"

definition num_or_null :: "rat option \<Rightarrow> rat option" where
  "num_or_null x = (case x of None \<Rightarrow> None | Some v \<Rightarrow> if v = 0 then None else Some v)"

definition int_or_null :: "int option \<Rightarrow> int option" where
  "int_or_null x = (case x of None \<Rightarrow> None | Some v \<Rightarrow> if v = 0 then None else Some v)"

definition str_or :: "string option \<Rightarrow> string \<Rightarrow> string" where
  "str_or x d = (case x of None \<Rightarrow> d | Some v \<Rightarrow> if v = [] then d else v)"

definition str_or_null :: "string option \<Rightarrow> string option" where
  "str_or_null x = (case x of None \<Rightarrow> None | Some v \<Rightarrow> if v = [] then None else Some v)"

definition truthy_str :: "string option \<Rightarrow> bool" where
  "truthy_str x = (case x of None \<Rightarrow> False | Some v \<Rightarrow> v \<noteq> [])"

section \<open>Rate limiter\<close>

text \<open>
  \<^verbatim>\<open>rateLimit(c, identifier, limit = 100)\<close>. The endpoint is \<^verbatim>\<open>c.req.path\<close>. The three
  statements run in order: delete the rows older than one minute, read the first row of
  this identifier and endpoint that is left, reject when its count has reached the limit,
  otherwise insert a row stamped with the present instant or, when a row with exactly this
  identifier, endpoint and instant exists, add one to its count.
\<close>

definition rate_limit_upsert ::
  "rate_limit_row list \<Rightarrow> string \<Rightarrow> string \<Rightarrow> int \<Rightarrow> rate_limit_row list" where
  "rate_limit_upsert rows identifier endpoint now =
     (if \<exists>r \<in> set rows. rl_identifier r = identifier \<and> rl_endpoint r = endpoint
           \<and> rl_window_start r = now
      then map (\<lambda>r. if rl_identifier r = identifier \<and> rl_endpoint r = endpoint
                        \<and> rl_window_start r = now
                     then r\<lparr>rl_count := rl_count r + 1\<rparr> else r) rows
      else rows @ [\<lparr>rl_identifier = identifier, rl_endpoint = endpoint, rl_count = 1,
                     rl_window_start = now\<rparr>])"

definition rateLimit :: "db \<Rightarrow> string \<Rightarrow> int \<Rightarrow> string \<Rightarrow> int \<Rightarrow> 'a response option \<times> db" where
  "rateLimit d path now identifier limit =
     (let windowStart = now - 60000;
          kept = filter (\<lambda>r. \<not> rl_window_start r < windowStart) (rate_limits d);
          result = find (\<lambda>r. rl_identifier r = identifier \<and> rl_endpoint r = path
                              \<and> rl_window_start r \<ge> windowStart) kept
      in if (case result of None \<Rightarrow> False | Some r \<Rightarrow> rl_count r \<ge> limit)
         then (Some (Error ''Rate limit exceeded'', 429), d\<lparr>rate_limits := kept\<rparr>)
         else (None, d\<lparr>rate_limits := rate_limit_upsert kept identifier path now\<rparr>))"

text \<open>The default of the \<^verbatim>\<open>limit\<close> parameter.\<close>

definition rateLimit_default :: int where
  "rateLimit_default = 100"

text \<open>
  A run of requests by one identifier on one endpoint at the given instants: for each
  request whether it was admitted, and the store at the end.
\<close>

fun rate_limited_run :: "db \<Rightarrow> string \<Rightarrow> string \<Rightarrow> int \<Rightarrow> int list \<Rightarrow> bool list \<times> db" where
  "rate_limited_run d path identifier limit [] = ([], d)"
| "rate_limited_run d path identifier limit (now # later) =
     (case (rateLimit d path now identifier limit :: unit response option \<times> db) of
        (verdict, d') \<Rightarrow>
          (case rate_limited_run d' path identifier limit later of
             (admitted, d'') \<Rightarrow> ((verdict = None) # admitted, d'')))"

section \<open>Tokens\<close>

subsection \<open>Platform primitives\<close>

text \<open>
  JSON values, as far as tokens need them. An object is the list of its properties in
  insertion order.
\<close>

datatype json = JNull | JBool bool | JNum int | JStr string | JArr "json list"
  | JObj "(string \<times> json) list"

text \<open>
  The library functions that the handlers call and the repository does not define are
  parameters of the model: the MAC of \<^verbatim>\<open>crypto.subtle.sign('HMAC', key, data)\<close> with
  SHA-256 (key first, the result as 32 raw bytes), \<^verbatim>\<open>JSON.stringify\<close> and
  \<^verbatim>\<open>JSON.parse\<close> (\<open>None\<close> when it throws), the conversion to a number that \<^verbatim>\<open><\<close>
  applies to an operand that is not a number (\<open>None\<close> for NaN), and bcrypt (the salt that
  \<^verbatim>\<open>bcrypt.hash\<close> draws is part of the parameter).
\<close>

record platform =
  hmac_sha256 :: "string \<Rightarrow> string \<Rightarrow> string"
  json_stringify :: "json \<Rightarrow> string"
  json_parse :: "string \<Rightarrow> json option"
  to_number :: "json \<Rightarrow> int option"
  bcrypt_hash :: "string \<Rightarrow> nat \<Rightarrow> string"
  bcrypt_compare :: "string \<Rightarrow> string \<Rightarrow> bool"

text \<open>The worker's bindings (\<^verbatim>\<open>c.env\<close>).\<close>

record bindings =
  DB :: db
  JWT_SECRET :: string

subsection \<open>\<^verbatim>\<open>btoa\<close> and \<^verbatim>\<open>atob\<close>\<close>

definition b64_alphabet :: string where
  "b64_alphabet = ''ABCDEFGHIJKLMNOPQRSTUVWXYZabcdefghijklmnopqrstuvwxyz0123456789+/''"

definition b64_char :: "nat \<Rightarrow> char" where
  "b64_char n = b64_alphabet ! (n mod 64)"

fun index_of :: "'a \<Rightarrow> 'a list \<Rightarrow> nat option" where
  "index_of x [] = None"
| "index_of x (y # ys) = (if x = y then Some 0 else map_option Suc (index_of x ys))"

definition b64_index :: "char \<Rightarrow> nat option" where
  "b64_index c = index_of c b64_alphabet"

text \<open>Three bytes give four six-bit groups; one or two bytes left over give two or three.\<close>

fun b64_sextets :: "string \<Rightarrow> nat list" where
  "b64_sextets (a # b # c # rest) =
     (let x = of_char a; y = of_char b; z = of_char c
      in x div 4 # ((x mod 4) * 16 + y div 16) # ((y mod 16) * 4 + z div 64) # z mod 64
           # b64_sextets rest)"
| "b64_sextets [a, b] =
     (let x = of_char a; y = of_char b
      in [x div 4, (x mod 4) * 16 + y div 16, (y mod 16) * 4])"
| "b64_sextets [a] = (let x = of_char a in [x div 4, (x mod 4) * 16])"
| "b64_sextets [] = []"

definition btoa :: "string \<Rightarrow> string" where
  "btoa s = map b64_char (b64_sextets s) @ replicate ((3 - length s mod 3) mod 3) (CHR ''='')"

fun b64_bytes :: "nat list \<Rightarrow> string" where
  "b64_bytes (a # b # c # d # rest) =
     char_of (a * 4 + b div 16) # char_of ((b mod 16) * 16 + c div 4)
       # char_of ((c mod 4) * 64 + d) # b64_bytes rest"
| "b64_bytes [a, b, c] = [char_of (a * 4 + b div 16), char_of ((b mod 16) * 16 + c div 4)]"
| "b64_bytes [a, b] = [char_of (a * 4 + b div 16)]"
| "b64_bytes [a] = []"
| "b64_bytes [] = []"

definition ascii_whitespace :: "char \<Rightarrow> bool" where
  "ascii_whitespace c = (c \<in> {CHR 0x09, CHR 0x0A, CHR 0x0C, CHR 0x0D, CHR 0x20})"

definition strip_padding :: "string \<Rightarrow> string" where
  "strip_padding s =
     (if s \<noteq> [] \<and> last s = CHR ''=''
      then (let s1 = butlast s in if s1 \<noteq> [] \<and> last s1 = CHR ''='' then butlast s1 else s1)
      else s)"

text \<open>
  \<^verbatim>\<open>atob\<close> (forgiving base64): white space is dropped, padding is dropped from a string
  whose length is a multiple of four, and a string that then has a length of 1 modulo 4
  or a character outside the alphabet is refused (\<open>None\<close>: InvalidCharacterError).
\<close>

definition atob :: "string \<Rightarrow> string option" where
  "atob s =
     (let d = filter (\<lambda>c. \<not> ascii_whitespace c) s;
          d' = (if length d mod 4 = 0 then strip_padding d else d)
      in if length d' mod 4 = 1 then None
         else map_option b64_bytes (those (map b64_index d')))"

subsection \<open>Signing, issuing and verifying\<close>

text \<open>\<^verbatim>\<open>token.split('.')\<close>\<close>

fun split_dot :: "string \<Rightarrow> string list" where
  "split_dot [] = [[]]"
| "split_dot (c # cs) =
     (if c = CHR ''.'' then [] # split_dot cs
      else (case split_dot cs of [] \<Rightarrow> [[c]] | w # ws \<Rightarrow> (c # w) # ws))"

definition signHS256 :: "platform \<Rightarrow> string \<Rightarrow> string \<Rightarrow> string" where
  "signHS256 P data secret = btoa (hmac_sha256 P secret data)"

text \<open>
  \<^verbatim>\<open>{...payload, iat: now, exp: now + 24 * 60 * 60}\<close>: a property that the payload has
  already keeps its place and takes the new value.
\<close>

definition jwtPayload :: "(string \<times> json) list \<Rightarrow> int \<Rightarrow> json" where
  "jwtPayload payload now =
     JObj (AList.update ''exp'' (JNum (now + 24 * 60 * 60))
            (AList.update ''iat'' (JNum now) payload))"

definition jwt_header :: json where
  "jwt_header = JObj [(''alg'', JStr ''HS256''), (''typ'', JStr ''JWT'')]"

text \<open>\<open>now_ms\<close> is \<^verbatim>\<open>Date.now()\<close>.\<close>

definition generateJWT :: "platform \<Rightarrow> (string \<times> json) list \<Rightarrow> string \<Rightarrow> int \<Rightarrow> string" where
  "generateJWT P payload secret now_ms =
     (let now = now_ms div 1000;
          encodedHeader = btoa (json_stringify P jwt_header);
          encodedPayload = btoa (json_stringify P (jwtPayload payload now));
          signature = signHS256 P (encodedHeader @ ''.'' @ encodedPayload) secret
      in encodedHeader @ ''.'' @ encodedPayload @ ''.'' @ signature)"

datatype jwt_error = InvalidSignature | TokenExpired | InvalidCharacter | SyntaxError
  | TypeError

text \<open>Reading a property: of \<^verbatim>\<open>null\<close> it throws, of a value that is no object it is undefined.\<close>

definition get_prop :: "json \<Rightarrow> string \<Rightarrow> jwt_error + json option" where
  "get_prop v k = (case v of JNull \<Rightarrow> Inl TypeError | JObj kvs \<Rightarrow> Inr (map_of kvs k)
                   | _ \<Rightarrow> Inr None)"

text \<open>\<^verbatim>\<open>v < n\<close> for a number \<open>n\<close>: false when \<open>v\<close> is undefined or converts to NaN.\<close>

definition js_less :: "platform \<Rightarrow> json option \<Rightarrow> int \<Rightarrow> bool" where
  "js_less P v n = (case v of None \<Rightarrow> False | Some (JNum m) \<Rightarrow> m < n
                    | Some w \<Rightarrow> (case to_number P w of None \<Rightarrow> False | Some m \<Rightarrow> m < n))"

text \<open>
  The destructuring takes the first three segments; a segment that is missing is
  \<^verbatim>\<open>undefined\<close>, and with fewer than three the signature is, which no string equals.
\<close>

definition verifyJWT :: "platform \<Rightarrow> string \<Rightarrow> string \<Rightarrow> int \<Rightarrow> jwt_error + json" where
  "verifyJWT P token secret now_ms =
     (case split_dot token of
        header # payload # signature # _ \<Rightarrow>
          if signature \<noteq> signHS256 P (header @ ''.'' @ payload) secret then Inl InvalidSignature
          else (case atob payload of
                  None \<Rightarrow> Inl InvalidCharacter
                | Some text \<Rightarrow>
                    (case json_parse P text of
                       None \<Rightarrow> Inl SyntaxError
                     | Some decodedPayload \<Rightarrow>
                         (case get_prop decodedPayload ''exp'' of
                            Inl e \<Rightarrow> Inl e
                          | Inr e \<Rightarrow> if js_less P e (now_ms div 1000) then Inl TokenExpired
                                     else Inr decodedPayload)))
      | _ \<Rightarrow> Inl InvalidSignature)"

section \<open>Authentication middleware\<close>

fun starts_with :: "string \<Rightarrow> string \<Rightarrow> bool" where
  "starts_with s [] = True"
| "starts_with [] (p # ps) = False"
| "starts_with (c # cs) (p # ps) = (c = p \<and> starts_with cs ps)"

fun str_includes :: "string \<Rightarrow> string \<Rightarrow> bool" where
  "str_includes [] sub = (sub = [])"
| "str_includes (c # cs) sub = (starts_with (c # cs) sub \<or> str_includes cs sub)"

text \<open>What \<^verbatim>\<open>c.set('user', ...)\<close> stores: four properties read from the decoded payload.\<close>

record identity =
  id_userId :: "json option"
  id_tenantId :: "json option"
  id_email :: "json option"
  id_role :: "json option"

text \<open>
  The gate answers by itself (\<open>Rejected\<close>) or hands the request on (\<open>Next\<close>), with the
  identity it has attached, if any.
\<close>

datatype gate = Rejected "unit response" | Next "identity option"

definition read_identity :: "json \<Rightarrow> jwt_error + identity" where
  "read_identity payload =
     (case get_prop payload ''userId'' of Inl e \<Rightarrow> Inl e | Inr uid \<Rightarrow>
     (case get_prop payload ''tenantId'' of Inl e \<Rightarrow> Inl e | Inr tid \<Rightarrow>
     (case get_prop payload ''email'' of Inl e \<Rightarrow> Inl e | Inr em \<Rightarrow>
     (case get_prop payload ''role'' of Inl e \<Rightarrow> Inl e | Inr ro \<Rightarrow>
        Inr \<lparr>id_userId = uid, id_tenantId = tid, id_email = em, id_role = ro\<rparr>))))"

definition auth_middleware ::
  "platform \<Rightarrow> bindings \<Rightarrow> string \<Rightarrow> string option \<Rightarrow> int \<Rightarrow> gate" where
  "auth_middleware P env path authHeader now_ms =
     (if str_includes path ''/auth/login'' \<or> str_includes path ''/auth/register'' then Next None
      else (case authHeader of
              None \<Rightarrow> Rejected (Error ''Unauthorized'', 401)
            | Some h \<Rightarrow>
                if h = [] \<or> \<not> starts_with h ''Bearer '' then Rejected (Error ''Unauthorized'', 401)
                else (case verifyJWT P (drop 7 h) (JWT_SECRET env) now_ms of
                        Inl e \<Rightarrow> Rejected (Error ''Invalid token'', 401)
                      | Inr payload \<Rightarrow>
                          (case read_identity payload of
                             Inl e \<Rightarrow> Rejected (Error ''Invalid token'', 401)
                           | Inr u \<Rightarrow> Next (Some u)))))"

section \<open>Authentication routes\<close>

subsection \<open>\<^verbatim>\<open>POST /api/auth/register\<close>\<close>

record register_body =
  rb_companyName :: string
  rb_email :: string
  rb_password :: string
  rb_firstName :: string
  rb_lastName :: string

text \<open>
  The tenant key: lower case, every character outside \<^verbatim>\<open>a-z0-9\<close> replaced by a dash, runs
  of dashes collapsed, one dash removed at either end. (On byte strings only the letters
  \<^verbatim>\<open>A-Z\<close> have a lower case inside \<^verbatim>\<open>a-z\<close>; every other byte ends as a dash either way.)
\<close>

definition to_lower :: "char \<Rightarrow> char" where
  "to_lower c = (let n = of_char c :: nat in if 65 \<le> n \<and> n \<le> 90 then char_of (n + 32) else c)"

definition alnum_lower :: "char \<Rightarrow> bool" where
  "alnum_lower c = (let n = of_char c :: nat in (97 \<le> n \<and> n \<le> 122) \<or> (48 \<le> n \<and> n \<le> 57))"

fun collapse_dashes :: "string \<Rightarrow> string" where
  "collapse_dashes (a # b # cs) =
     (if a = CHR ''-'' \<and> b = CHR ''-'' then collapse_dashes (b # cs)
      else a # collapse_dashes (b # cs))"
| "collapse_dashes cs = cs"

definition trim_dash :: "string \<Rightarrow> string" where
  "trim_dash s =
     (let s1 = (case s of [] \<Rightarrow> [] | c # cs \<Rightarrow> if c = CHR ''-'' then cs else c # cs)
      in if s1 \<noteq> [] \<and> last s1 = CHR ''-'' then butlast s1 else s1)"

definition tenantKey_of :: "string \<Rightarrow> string" where
  "tenantKey_of companyName =
     trim_dash (collapse_dashes
       (map (\<lambda>c. if alnum_lower c then c else CHR ''-'') (map to_lower companyName)))"

definition hashPassword :: "platform \<Rightarrow> string \<Rightarrow> string" where
  "hashPassword P password = bcrypt_hash P password 10"

definition verifyPassword :: "platform \<Rightarrow> string \<Rightarrow> string \<Rightarrow> bool" where
  "verifyPassword P password hash = bcrypt_compare P password hash"

text \<open>The answer of a registration: message, tenant key, tenant id.\<close>

definition post_auth_register ::
  "platform \<Rightarrow> db \<Rightarrow> register_body \<Rightarrow> int \<Rightarrow> (string \<times> string \<times> int) response \<times> db" where
  "post_auth_register P d body now =
     (case rateLimit d ''/api/auth/register'' now (rb_email body) 5 of
        (Some rateLimited, d1) \<Rightarrow> (rateLimited, d1)
      | (None, d1) \<Rightarrow>
          (let tenantKey = tenantKey_of (rb_companyName body)
           in case find (\<lambda>t. t_tenant_key t = tenantKey) (tenants d1) of
                Some existingTenant \<Rightarrow> ((Error ''Company name already registered'', 400), d1)
              | None \<Rightarrow>
                  (let tenantId = last_row_id (map t_id (tenants d1));
                       d2 = d1\<lparr>tenants := tenants d1 @
                              [\<lparr>t_id = tenantId, t_tenant_key = tenantKey,
                                t_company_name = rb_companyName body, t_is_active = 1,
                                t_contact_email = rb_email body\<rparr>]\<rparr>;
                       passwordHash = hashPassword P (rb_password body);
                       d3 = d2\<lparr>users := users d2 @
                              [\<lparr>u_id = last_row_id (map u_id (users d2)), u_tenant_id = tenantId,
                                u_email = rb_email body, u_password_hash = passwordHash,
                                u_first_name = Some (rb_firstName body),
                                u_last_name = Some (rb_lastName body), u_role = ''admin'',
                                u_is_active = 1, u_last_login = None\<rparr>]\<rparr>
                   in ((Data (''Registration successful'', tenantKey, tenantId), 201), d3))))"

subsection \<open>\<^verbatim>\<open>POST /api/auth/login\<close>\<close>

record login_body =
  lb_email :: string
  lb_password :: string
  lb_tenantKey :: string

record login_result =
  lr_token :: string
  lr_id :: int
  lr_email :: string
  lr_firstName :: "string option"
  lr_lastName :: "string option"
  lr_role :: string
  lr_tenantKey :: string

definition post_auth_login ::
  "platform \<Rightarrow> bindings \<Rightarrow> login_body \<Rightarrow> int \<Rightarrow> login_result response \<times> db" where
  "post_auth_login P env body now =
     (case rateLimit (DB env) ''/api/auth/login'' now (lb_email body) 10 of
        (Some rateLimited, d1) \<Rightarrow> (rateLimited, d1)
      | (None, d1) \<Rightarrow>
          (case find (\<lambda>t. t_tenant_key t = lb_tenantKey body) (tenants d1) of
             None \<Rightarrow> ((Error ''Invalid credentials'', 401), d1)
           | Some tenant \<Rightarrow>
               if t_is_active tenant = 0 then ((Error ''Invalid credentials'', 401), d1)
               else
                 (case find (\<lambda>u. u_tenant_id u = t_id tenant \<and> u_email u = lb_email body
                                   \<and> u_is_active u = 1) (users d1) of
                    None \<Rightarrow> ((Error ''Invalid credentials'', 401), d1)
                  | Some usr \<Rightarrow>
                      if \<not> verifyPassword P (lb_password body) (u_password_hash usr)
                      then ((Error ''Invalid credentials'', 401), d1)
                      else
                        (let d2 = d1\<lparr>users := map (\<lambda>u. if u_id u = u_id usr
                                        then u\<lparr>u_last_login := Some (now div 1000)\<rparr> else u)
                                        (users d1)\<rparr>;
                             token = generateJWT P
                               [(''userId'', JNum (u_id usr)), (''tenantId'', JNum (t_id tenant)),
                                (''email'', JStr (u_email usr)), (''role'', JStr (u_role usr))]
                               (JWT_SECRET env) now;
                             d3 = d2\<lparr>activity_log := activity_log d2 @
                                    [\<lparr>al_tenant_id = t_id tenant, al_user_id = u_id usr,
                                      al_activity_type = ''login'', al_entity_type = None,
                                      al_entity_id = None,
                                      al_description = ''User logged in''\<rparr>]\<rparr>
                         in ((Data \<lparr>lr_token = token, lr_id = u_id usr, lr_email = u_email usr,
                                    lr_firstName = u_first_name usr,
                                    lr_lastName = u_last_name usr, lr_role = u_role usr,
                                    lr_tenantKey = lb_tenantKey body\<rparr>, 200), d3)))))"

section \<open>Domain routes\<close>

text \<open>
  Each handler below runs behind the gate, with the identity \<open>usr\<close> that the gate has
  attached. A request body is a record of the properties the handler reads: a property
  that the handler binds as it is (\<^verbatim>\<open>data.name\<close>) is taken as present, one that it guards
  with \<^verbatim>\<open>||\<close> or tests is optional. The last field of a body stands for a tenant
  identifier that the client may have put into it. A statement that violates a
  \<^verbatim>\<open>CHECK\<close> constraint of the schema throws, and the handler's \<^verbatim>\<open>catch\<close> answers 500.
\<close>

text \<open>\<^verbatim>\<open>a LEFT JOIN b ON on\<close>\<close>

definition left_join :: "'a list \<Rightarrow> 'b list \<Rightarrow> ('a \<Rightarrow> 'b \<Rightarrow> bool) \<Rightarrow> ('a \<times> 'b option) list" where
  "left_join xs ys on =
     concat (map (\<lambda>x. case filter (on x) ys of [] \<Rightarrow> [(x, None)]
                        | m # ms \<Rightarrow> map (\<lambda>y. (x, Some y)) (m # ms)) xs)"

text \<open>\<^verbatim>\<open>u.first_name || ' ' || u.last_name\<close> is NULL when a part is.\<close>

definition full_name :: "user_row \<Rightarrow> string option" where
  "full_name u = (case (u_first_name u, u_last_name u) of
                    (Some f, Some l) \<Rightarrow> Some (f @ '' '' @ l) | _ \<Rightarrow> None)"

subsection \<open>Opportunities\<close>

definition opportunity_types :: "string list" where
  "opportunity_types = [''new_business'', ''existing_business'', ''recompete'', ''task_order'']"

definition opportunity_stages :: "string list" where
  "opportunity_stages = [''prospecting'', ''qualification'', ''proposal'', ''negotiation'',
     ''closed_won'', ''closed_lost'']"

text \<open>
  \<^verbatim>\<open>GET /api/opportunities\<close>, with the query parameters \<^verbatim>\<open>stage\<close> and \<^verbatim>\<open>ownerId\<close> (the
  latter as the integer that \<^verbatim>\<open>parseInt\<close> reads). Each row comes with the
  \<^verbatim>\<open>company_name\<close> and the \<^verbatim>\<open>owner_name\<close> of the joins; rows are ordered by
  \<^verbatim>\<open>created_at\<close>, latest first.
\<close>

definition get_opportunities ::
  "db \<Rightarrow> user \<Rightarrow> string option \<Rightarrow> int option
     \<Rightarrow> (opportunity_row \<times> string option \<times> string option) list response \<times> db" where
  "get_opportunities d usr stage ownerId =
     (let j1 = left_join (opportunities d) (companies d)
                 (\<lambda>opp c. o_company_id opp = Some (co_id c) \<and> o_tenant_id opp = co_tenant_id c);
          j2 = left_join j1 (users d)
                 (\<lambda>(opp, c) u. o_owner_id opp = Some (u_id u) \<and> o_tenant_id opp = u_tenant_id u);
          w1 = filter (\<lambda>((opp, c), u). o_tenant_id opp = tenantId usr) j2;
          w2 = (if truthy_str stage then filter (\<lambda>((opp, c), u). Some (o_stage opp) = stage) w1
                else w1);
          w3 = (case ownerId of None \<Rightarrow> w2
                | Some oid \<Rightarrow> filter (\<lambda>((opp, c), u). o_owner_id opp = Some oid) w2);
          sorted = sort_key (\<lambda>((opp, c), u). - o_created_at opp) w3
      in ((Data (map (\<lambda>((opp, c), u). (opp, map_option co_name c, Option.bind u full_name)) sorted),
           200), d))"

record opportunity_input =
  oi_name :: string
  oi_companyId :: "int option"
  oi_type :: string
  oi_stage :: "string option"
  oi_amount :: "rat option"
  oi_probability :: "rat option"
  oi_closeDate :: "string option"
  oi_description :: "string option"
  oi_tenant_id :: "int option"

text \<open>\<^verbatim>\<open>POST /api/opportunities\<close>\<close>

definition post_opportunities ::
  "db \<Rightarrow> user \<Rightarrow> opportunity_input \<Rightarrow> int \<Rightarrow> opportunity_row option response \<times> db" where
  "post_opportunities d usr data now =
     (let expectedRevenue = num_or (oi_amount data) 0 * num_or (oi_probability data) 0 / 100;
          row = \<lparr>o_id = last_row_id (map o_id (opportunities d)),
                 o_tenant_id = tenantId usr,
                 o_name = oi_name data,
                 o_company_id = int_or_null (oi_companyId data),
                 o_type = oi_type data,
                 o_stage = str_or (oi_stage data) ''prospecting'',
                 o_probability = num_or (oi_probability data) 0,
                 o_amount = num_or_null (oi_amount data),
                 o_expected_revenue = Some expectedRevenue,
                 o_close_date = str_or_null (oi_closeDate data),
                 o_description = str_or_null (oi_description data),
                 o_owner_id = Some (userId usr),
                 o_created_at = now div 1000,
                 o_updated_at = now div 1000\<rparr>
      in if o_type row \<notin> set opportunity_types \<or> o_stage row \<notin> set opportunity_stages
         then ((Error ''Failed to create opportunity'', 500), d)
         else
           (let d1 = d\<lparr>opportunities := opportunities d @ [row]\<rparr>;
                d2 = d1\<lparr>activity_log := activity_log d1 @
                       [\<lparr>al_tenant_id = tenantId usr, al_user_id = userId usr,
                         al_activity_type = ''create'', al_entity_type = Some ''opportunity'',
                         al_entity_id = Some (o_id row),
                         al_description = ''Created: '' @ oi_name data\<rparr>]\<rparr>;
                opportunity = find (\<lambda>opp. o_id opp = o_id row) (opportunities d2)
            in ((Data opportunity, 201), d2)))"

record opportunity_patch =
  op_name :: "string option"
  op_stage :: "string option"
  op_amount :: "rat option"
  op_probability :: "rat option"
  op_tenant_id :: "int option"

text \<open>
  The \<^verbatim>\<open>SET\<close> list that \<^verbatim>\<open>PUT /api/opportunities/:id\<close> builds, applied to one row, in the
  order of the list.
\<close>

definition apply_updates :: "opportunity_patch \<Rightarrow> int \<Rightarrow> opportunity_row \<Rightarrow> opportunity_row" where
  "apply_updates data now opp =
     (let o1 = (case op_name data of None \<Rightarrow> opp
                | Some n \<Rightarrow> if n = [] then opp else opp\<lparr>o_name := n\<rparr>);
          o2 = (case op_stage data of None \<Rightarrow> o1
                | Some st \<Rightarrow> if st = [] then o1 else o1\<lparr>o_stage := st\<rparr>);
          o3 = (case op_amount data of None \<Rightarrow> o2 | Some a \<Rightarrow> o2\<lparr>o_amount := Some a\<rparr>);
          o4 = (case op_probability data of None \<Rightarrow> o3
                | Some p \<Rightarrow> o3\<lparr>o_probability := p,
                              o_expected_revenue := Some (num_or (op_amount data) 0 * p / 100)\<rparr>)
      in o4\<lparr>o_updated_at := now div 1000\<rparr>)"

definition put_opportunities ::
  "db \<Rightarrow> user \<Rightarrow> int \<Rightarrow> opportunity_patch \<Rightarrow> int \<Rightarrow> opportunity_row option response \<times> db" where
  "put_opportunities d usr ident data now =
     (case find (\<lambda>opp. o_id opp = ident \<and> o_tenant_id opp = tenantId usr) (opportunities d) of
        None \<Rightarrow> ((Error ''Opportunity not found'', 404), d)
      | Some existing \<Rightarrow>
          if (case op_stage data of None \<Rightarrow> False
              | Some st \<Rightarrow> st \<noteq> [] \<and> st \<notin> set opportunity_stages)
          then ((Error ''Failed to update opportunity'', 500), d)
          else
            (let d1 = d\<lparr>opportunities :=
                        map (\<lambda>opp. if o_id opp = ident \<and> o_tenant_id opp = tenantId usr
                                  then apply_updates data now opp else opp) (opportunities d)\<rparr>;
                 opportunity = find (\<lambda>opp. o_id opp = ident) (opportunities d1)
             in ((Data opportunity, 200), d1)))"

subsection \<open>Contacts\<close>

text \<open>\<^verbatim>\<open>GET /api/contacts\<close>: ordered by last name, then first name.\<close>

definition get_contacts :: "db \<Rightarrow> user \<Rightarrow> (contact_row \<times> string option) list response \<times> db" where
  "get_contacts d usr =
     (let j = left_join (contacts d) (companies d)
                (\<lambda>c co. ct_company_id c = Some (co_id co) \<and> ct_tenant_id c = co_tenant_id co);
          w = filter (\<lambda>(c, co). ct_tenant_id c = tenantId usr) j;
          sorted = sort_key (\<lambda>(c, co). (ct_last_name c, ct_first_name c)) w
      in ((Data (map (\<lambda>(c, co). (c, map_option co_name co)) sorted), 200), d))"

record contact_input =
  ci_firstName :: string
  ci_lastName :: string
  ci_email :: "string option"
  ci_phone :: "string option"
  ci_title :: "string option"
  ci_companyId :: "int option"
  ci_contactRole :: "string option"
  ci_isDecisionMaker :: bool
  ci_notes :: "string option"
  ci_tenant_id :: "int option"

text \<open>\<^verbatim>\<open>POST /api/contacts\<close>\<close>

definition post_contacts ::
  "db \<Rightarrow> user \<Rightarrow> contact_input \<Rightarrow> contact_row option response \<times> db" where
  "post_contacts d usr data =
     (let row = \<lparr>ct_id = last_row_id (map ct_id (contacts d)),
                 ct_tenant_id = tenantId usr,
                 ct_first_name = ci_firstName data,
                 ct_last_name = ci_lastName data,
                 ct_email = str_or_null (ci_email data),
                 ct_phone = str_or_null (ci_phone data),
                 ct_title = str_or_null (ci_title data),
                 ct_company_id = int_or_null (ci_companyId data),
                 ct_contact_role = str_or_null (ci_contactRole data),
                 ct_is_decision_maker = (if ci_isDecisionMaker data then 1 else 0),
                 ct_notes = str_or_null (ci_notes data)\<rparr>;
          d1 = d\<lparr>contacts := contacts d @ [row]\<rparr>;
          contact = find (\<lambda>c. ct_id c = ct_id row) (contacts d1)
      in ((Data contact, 201), d1))"

subsection \<open>Companies\<close>

definition company_types :: "string list" where
  "company_types = [''customer'', ''partner'', ''competitor'', ''teaming_partner'']"

text \<open>\<^verbatim>\<open>GET /api/companies\<close>: ordered by name.\<close>

definition get_companies :: "db \<Rightarrow> user \<Rightarrow> company_row list response \<times> db" where
  "get_companies d usr =
     ((Data (sort_key co_name (filter (\<lambda>c. co_tenant_id c = tenantId usr) (companies d))),
       200), d)"

text \<open>Truthiness of a JSON value.\<close>

definition json_truthy :: "json \<Rightarrow> bool" where
  "json_truthy v = (case v of JNull \<Rightarrow> False | JBool b \<Rightarrow> b | JNum n \<Rightarrow> n \<noteq> 0
                    | JStr t \<Rightarrow> t \<noteq> [] | _ \<Rightarrow> True)"

record company_input =
  coi_name :: string
  coi_type :: "string option"
  coi_industry :: "string option"
  coi_website :: "string option"
  coi_naicsCodes :: "json option"
  coi_dunsNumber :: "string option"
  coi_cageCode :: "string option"
  coi_tenant_id :: "int option"

text \<open>\<^verbatim>\<open>POST /api/companies\<close>\<close>

definition post_companies ::
  "platform \<Rightarrow> db \<Rightarrow> user \<Rightarrow> company_input \<Rightarrow> company_row option response \<times> db" where
  "post_companies P d usr data =
     (let row = \<lparr>co_id = last_row_id (map co_id (companies d)),
                 co_tenant_id = tenantId usr,
                 co_name = coi_name data,
                 co_type = str_or (coi_type data) ''customer'',
                 co_industry = str_or_null (coi_industry data),
                 co_website = str_or_null (coi_website data),
                 co_naics_codes = (case coi_naicsCodes data of None \<Rightarrow> None
                    | Some v \<Rightarrow> if json_truthy v then Some (json_stringify P v) else None),
                 co_duns_number = str_or_null (coi_dunsNumber data),
                 co_cage_code = str_or_null (coi_cageCode data)\<rparr>
      in if co_type row \<notin> set company_types
         then ((Error ''Failed to create company'', 500), d)
         else
           (let d1 = d\<lparr>companies := companies d @ [row]\<rparr>;
                company = find (\<lambda>c. co_id c = co_id row) (companies d1)
            in ((Data company, 201), d1)))"

subsection \<open>Captures\<close>

definition capture_types :: "string list" where
  "capture_types = [''sole'', ''joint'']"

definition capture_phases :: "string list" where
  "capture_phases = [''phase0_long_range'', ''phase1_positioning'', ''phase2_qualifying'',
     ''phase3_solution_dev'', ''phase4_proposal'', ''phase5_production'']"

text \<open>
  \<^verbatim>\<open>GET /api/captures\<close>: each row with the name of its capture manager, latest first. The
  join with the users has no condition on the tenant.
\<close>

definition get_captures :: "db \<Rightarrow> user \<Rightarrow> (capture_row \<times> string option) list response \<times> db" where
  "get_captures d usr =
     (let j = left_join (captures d) (users d)
                (\<lambda>c u. cap_capture_manager_id c = Some (u_id u));
          w = filter (\<lambda>(c, u). cap_tenant_id c = tenantId usr) j;
          sorted = sort_key (\<lambda>(c, u). - cap_created_at c) w
      in ((Data (map (\<lambda>(c, u). (c, Option.bind u full_name)) sorted), 200), d))"

record capture_input =
  cpi_name :: string
  cpi_customerName :: string
  cpi_captureType :: string
  cpi_currentPhase :: "string option"
  cpi_pwin :: "rat option"
  cpi_contractValue :: "rat option"
  cpi_rfpReleaseDate :: "string option"
  cpi_proposalDueDate :: "string option"
  cpi_tenant_id :: "int option"

text \<open>\<^verbatim>\<open>POST /api/captures\<close>\<close>

definition post_captures ::
  "db \<Rightarrow> user \<Rightarrow> capture_input \<Rightarrow> int \<Rightarrow> capture_row option response \<times> db" where
  "post_captures d usr data now =
     (let row = \<lparr>cap_id = last_row_id (map cap_id (captures d)),
                 cap_tenant_id = tenantId usr,
                 cap_name = cpi_name data,
                 cap_customer_name = cpi_customerName data,
                 cap_capture_type = cpi_captureType data,
                 cap_current_phase = str_or (cpi_currentPhase data) ''phase0_long_range'',
                 cap_pwin = num_or_null (cpi_pwin data),
                 cap_contract_value = num_or_null (cpi_contractValue data),
                 cap_rfp_release_date = str_or_null (cpi_rfpReleaseDate data),
                 cap_proposal_due_date = str_or_null (cpi_proposalDueDate data),
                 cap_capture_manager_id = Some (userId usr),
                 cap_created_at = now div 1000\<rparr>
      in if cap_capture_type row \<notin> set capture_types
            \<or> cap_current_phase row \<notin> set capture_phases
         then ((Error ''Failed to create capture'', 500), d)
         else
           (let d1 = d\<lparr>captures := captures d @ [row]\<rparr>;
                capture = find (\<lambda>c. cap_id c = cap_id row) (captures d1)
            in ((Data capture, 201), d1)))"

subsection \<open>Dashboard\<close>

text \<open>\<^verbatim>\<open>COALESCE(SUM(x), 0)\<close> over a column that may be NULL.\<close>

definition sum_or_zero :: "rat option list \<Rightarrow> rat" where
  "sum_or_zero xs = sum_list (map (\<lambda>x. case x of None \<Rightarrow> 0 | Some v \<Rightarrow> v) xs)"

definition open_stage :: "string \<Rightarrow> bool" where
  "open_stage st = (st \<notin> {''closed_won'', ''closed_lost''})"

record kpis =
  totalRevenue :: rat
  openOpportunities :: nat
  winRate :: rat
  pipelineValue :: rat

text \<open>\<^verbatim>\<open>GET /api/dashboard/kpis\<close>: the win rate is NULL, and then 0, when no opportunity is closed.\<close>

definition get_dashboard_kpis :: "db \<Rightarrow> user \<Rightarrow> kpis response \<times> db" where
  "get_dashboard_kpis d usr =
     (let own = filter (\<lambda>opp. o_tenant_id opp = tenantId usr) (opportunities d);
          won = filter (\<lambda>opp. o_stage opp = ''closed_won'') own;
          closed = filter (\<lambda>opp. \<not> open_stage (o_stage opp)) own;
          pending = filter (\<lambda>opp. open_stage (o_stage opp)) own
      in ((Data \<lparr>totalRevenue = sum_or_zero (map o_amount won),
                 openOpportunities = length pending,
                 winRate = (if length closed = 0 then 0
                            else of_nat (length won) * 100 / of_nat (length closed)),
                 pipelineValue = sum_or_zero (map o_expected_revenue pending)\<rparr>, 200), d))"

text \<open>
  \<^verbatim>\<open>GET /api/dashboard/pipeline-by-stage\<close>: one row (stage, count, value) for each stage
  that occurs among the caller's open opportunities.
\<close>

definition get_dashboard_pipeline_by_stage ::
  "db \<Rightarrow> user \<Rightarrow> (string \<times> nat \<times> rat) list response \<times> db" where
  "get_dashboard_pipeline_by_stage d usr =
     (let pending = filter (\<lambda>opp. o_tenant_id opp = tenantId usr \<and> open_stage (o_stage opp))
                      (opportunities d);
          groups = sort (remdups (map o_stage pending))
      in ((Data (map (\<lambda>st. (st, length (filter (\<lambda>opp. o_stage opp = st) pending),
                             sum_or_zero (map o_amount (filter (\<lambda>opp. o_stage opp = st) pending))))
                  groups), 200), d))"



section \<open>A concrete store\<close>

text \<open>
  The demo tenant of the schema's seed data (one user, company, contact, opportunity and
  capture), next to a second tenant with a user of its own, and the identities of the
  two users.
\<close>

definition seed_db :: db where
  "seed_db =
     \<lparr>tenants =
        [\<lparr>t_id = 1, t_tenant_key = ''demo'', t_company_name = ''Demo Company'',
          t_is_active = 1, t_contact_email = ''demo@example.com''\<rparr>,
         \<lparr>t_id = 2, t_tenant_key = ''acme-corp'', t_company_name = ''Acme Corp'',
          t_is_active = 1, t_contact_email = ''admin@acme.example''\<rparr>,
         \<lparr>t_id = 3, t_tenant_key = ''closed'', t_company_name = ''Closed'',
          t_is_active = 0, t_contact_email = ''admin@closed.example''\<rparr>],
      users =
        [\<lparr>u_id = 1, u_tenant_id = 1, u_email = ''demo@example.com'',
          u_password_hash = ''$2a$10$YourHashedPasswordHere'', u_first_name = Some ''Demo'',
          u_last_name = Some ''User'', u_role = ''admin'', u_is_active = 1,
          u_last_login = None\<rparr>,
         \<lparr>u_id = 2, u_tenant_id = 2, u_email = ''admin@acme.example'',
          u_password_hash = ''$2a$10$AnotherHashedPassword'', u_first_name = Some ''Ada'',
          u_last_name = Some ''Admin'', u_role = ''admin'', u_is_active = 1,
          u_last_login = None\<rparr>,
         \<lparr>u_id = 3, u_tenant_id = 3, u_email = ''admin@closed.example'',
          u_password_hash = ''$2a$10$YourHashedPasswordHere'', u_first_name = Some ''Cy'',
          u_last_name = Some ''Closed'', u_role = ''admin'', u_is_active = 1,
          u_last_login = None\<rparr>],
      companies =
        [\<lparr>co_id = 1, co_tenant_id = 1, co_name = ''Acme Government Solutions'',
          co_type = ''customer'', co_industry = Some ''Federal Contracting'',
          co_website = None, co_naics_codes = None, co_duns_number = None,
          co_cage_code = None\<rparr>],
      contacts =
        [\<lparr>ct_id = 1, ct_tenant_id = 1, ct_first_name = ''John'', ct_last_name = ''Anderson'',
          ct_email = Some ''john@acme.gov'', ct_phone = None, ct_title = None,
          ct_company_id = Some 1, ct_contact_role = None, ct_is_decision_maker = 1,
          ct_notes = None\<rparr>],
      opportunities =
        [\<lparr>o_id = 1, o_tenant_id = 1, o_name = ''Federal Cloud Migration'',
          o_company_id = Some 1, o_type = ''new_business'', o_stage = ''qualification'',
          o_probability = 60, o_amount = Some 2500000, o_expected_revenue = Some 1500000,
          o_close_date = None, o_description = None, o_owner_id = Some 1,
          o_created_at = 1700000000, o_updated_at = 1700000000\<rparr>],
      captures =
        [\<lparr>cap_id = 1, cap_tenant_id = 1, cap_name = ''DoD Cybersecurity Initiative'',
          cap_customer_name = ''Department of Defense'', cap_capture_type = ''joint'',
          cap_current_phase = ''phase2_qualifying'', cap_pwin = Some 55,
          cap_contract_value = Some 5000000, cap_rfp_release_date = None,
          cap_proposal_due_date = None, cap_capture_manager_id = Some 1,
          cap_created_at = 1700000000\<rparr>],
      activity_log = [],
      rate_limits = []\<rparr>"

definition demo_user :: user where
  "demo_user = \<lparr>userId = 1, tenantId = 1, email = ''demo@example.com'', role = ''admin''\<rparr>"

definition acme_user :: user where
  "acme_user = \<lparr>userId = 2, tenantId = 2, email = ''admin@acme.example'', role = ''admin''\<rparr>"


definition empty_patch :: opportunity_patch where
  "empty_patch = \<lparr>op_name = None, op_stage = None, op_amount = None, op_probability = None,
     op_tenant_id = None\<rparr>"

text \<open>
  The same store after a burst of traffic: counters far above every limit, for the
  caller's address and for the caller's e-mail address, on a general endpoint.
\<close>

definition saturated_db :: db where
  "saturated_db = seed_db\<lparr>rate_limits :=
     [\<lparr>rl_identifier = ''203.0.113.7'', rl_endpoint = ''/api/opportunities'', rl_count = 1000,
       rl_window_start = 1700000100000\<rparr>,
      \<lparr>rl_identifier = ''demo@example.com'', rl_endpoint = ''/api/opportunities'',
       rl_count = 1000, rl_window_start = 1700000100000\<rparr>]\<rparr>"

section \<open>A concrete platform\<close>

text \<open>
  An instance of the platform's functions for running the model: it has the values of
  \<^verbatim>\<open>JSON.stringify\<close>, \<^verbatim>\<open>JSON.parse\<close> and HMAC-SHA256 at the header and at the payload of
  the demo user's token issued at the instant 1700000000123 under the secret
  \<^verbatim>\<open>test-secret\<close>, and of bcrypt at the demo password of the seed data.
\<close>

definition demo_secret :: string where
  "demo_secret = ''test-secret''"

definition demo_payload :: "(string \<times> json) list" where
  "demo_payload = [(''userId'', JNum 1), (''tenantId'', JNum 1),
     (''email'', JStr ''demo@example.com''), (''role'', JStr ''admin'')]"

definition jwt_header_text :: string where
  \<open>jwt_header_text = ''{"alg":"HS256","typ":"JWT"}''\<close>

definition demo_payload_text :: string where
  \<open>demo_payload_text =
     ''{"userId":1,"tenantId":1,"email":"demo@example.com","role":"admin","iat":1700000000,"exp":1700086400}''\<close>

definition demo_signing_input :: string where
  "demo_signing_input = ''eyJhbGciOiJIUzI1NiIsInR5cCI6IkpXVCJ9.eyJ1c2VySWQiOjEsInRlbmFudElkIjoxLCJlbWFpbCI6ImRlbW9AZXhhbXBsZS5jb20iLCJyb2xlIjoiYWRtaW4iLCJpYXQiOjE3MDAwMDAwMDAsImV4cCI6MTcwMDA4NjQwMH0=''"

definition demo_mac :: string where
  "demo_mac = map char_of [80, 210, 63, 22, 127, 105, 37, 250, 47, 94, 198, 15, 102, 59, 185,
     225, 111, 79, 139, 74, 44, 97, 60, 127, 33, 126, 124, 169, 172, 55, 215, 56 :: nat]"

definition demo_platform :: platform where
  "demo_platform =
     \<lparr>hmac_sha256 = (\<lambda>key data. if key = demo_secret \<and> data = demo_signing_input then demo_mac
                                 else replicate 32 (CHR 0x00)),
      json_stringify = (\<lambda>v. if v = jwt_header then jwt_header_text
                              else if v = jwtPayload demo_payload 1700000000
                              then demo_payload_text else ''null''),
      json_parse = (\<lambda>t. if t = demo_payload_text then Some (jwtPayload demo_payload 1700000000)
                          else None),
      to_number = (\<lambda>v. None),
      bcrypt_hash = (\<lambda>password rounds. ''$2a$10$YourHashedPasswordHere''),
      bcrypt_compare = (\<lambda>password hash. password = ''password123''
                          \<and> hash = ''$2a$10$YourHashedPasswordHere'')\<rparr>"

definition demo_token :: string where
  "demo_token = demo_signing_input @ ''.UNI/Fn9pJfovXsYPZju54W9Pi0osYTx/IX58qaw31zg=''"

definition demo_env :: bindings where
  "demo_env = \<lparr>DB = seed_db, JWT_SECRET = demo_secret\<rparr>"

section \<open>Properties\<close>

subsection \<open>Base64\<close>
lemma of_char_less_256: "of_char c < (256::nat)"
proof -
  have "of_char c mod 256 = (of_char c :: nat)" by simp
  moreover have "(of_char c :: nat) mod 256 < 256" by simp
  ultimately show ?thesis by simp
qed

lemma index_of_nth: "distinct xs \<Longrightarrow> n < length xs \<Longrightarrow> index_of (xs ! n) xs = Some n"
proof (induction xs arbitrary: n)
  case Nil
  then show ?case by simp
next
  case (Cons y ys)
  show ?case
  proof (cases n)
    case 0
    then show ?thesis by simp
  next
    case (Suc m)
    with Cons.prems have "ys ! m \<noteq> y" "m < length ys" "distinct ys" by auto
    with Cons.IH[of m] Suc show ?thesis by simp
  qed
qed

lemma index_of_Some_mem: "index_of x xs = Some n \<Longrightarrow> x \<in> set xs"
  by (induction xs arbitrary: n) (auto split: if_splits)

lemma b64_alphabet_length: "length b64_alphabet = 64"
  by (simp add: b64_alphabet_def)

lemma b64_alphabet_distinct: "distinct b64_alphabet"
  by (simp add: b64_alphabet_def)

lemma b64_index_char: "n < 64 \<Longrightarrow> b64_index (b64_char n) = Some n"
  unfolding b64_index_def b64_char_def
  using index_of_nth[OF b64_alphabet_distinct, of n] by (simp add: b64_alphabet_length)

lemma b64_char_in_alphabet: "b64_char n \<in> set b64_alphabet"
  unfolding b64_char_def by (rule nth_mem) (simp add: b64_alphabet_length)

lemma b64_sextets_bound: "\<forall>n \<in> set (b64_sextets s). n < 64"
proof (induction s rule: b64_sextets.induct)
  case (1 a b c rest)
  define x y z :: nat where "x = of_char a" and "y = of_char b" and "z = of_char c"
  have lt: "x < 256" "y < 256" "z < 256" unfolding x_def y_def z_def by (rule of_char_less_256)+
  have "x div 4 < 64" "(x mod 4) * 16 + y div 16 < 64" "(y mod 16) * 4 + z div 64 < 64"
    "z mod 64 < 64" using lt by simp_all
  with 1 show ?case by (simp add: Let_def x_def[symmetric] y_def[symmetric] z_def[symmetric])
next
  case (2 a b)
  define x y :: nat where "x = of_char a" and "y = of_char b"
  have lt: "x < 256" "y < 256" unfolding x_def y_def by (rule of_char_less_256)+
  have "x div 4 < 64" "(x mod 4) * 16 + y div 16 < 64" "(y mod 16) * 4 < 64"
    using lt by simp_all
  then show ?case by (simp add: Let_def x_def[symmetric] y_def[symmetric])
next
  case (3 a)
  define x :: nat where "x = of_char a"
  have lt: "x < 256" unfolding x_def by (rule of_char_less_256)
  have "x div 4 < 64" "(x mod 4) * 16 < 64" using lt by simp_all
  then show ?case by (simp add: Let_def x_def[symmetric])
next
  case 4
  then show ?case by simp
qed

lemma b64_bytes_sextets: "b64_bytes (b64_sextets s) = s"
proof (induction s rule: b64_sextets.induct)
  case (1 a b c rest)
  define x y z :: nat where "x = of_char a" and "y = of_char b" and "z = of_char c"
  have lt: "x < 256" "y < 256" "z < 256" unfolding x_def y_def z_def by (rule of_char_less_256)+
  have e1: "x div 4 * 4 + ((x mod 4) * 16 + y div 16) div 16 = x" using lt by simp
  have e2: "(((x mod 4) * 16 + y div 16) mod 16) * 16 + ((y mod 16) * 4 + z div 64) div 4 = y"
    using lt by simp
  have e3: "(((y mod 16) * 4 + z div 64) mod 4) * 64 + z mod 64 = z" using lt by simp
  have "char_of x = a" "char_of y = b" "char_of z = c" unfolding x_def y_def z_def by simp_all
  with 1 e1 e2 e3 show ?case by (simp add: Let_def x_def[symmetric] y_def[symmetric] z_def[symmetric])
next
  case (2 a b)
  define x y :: nat where "x = of_char a" and "y = of_char b"
  have lt: "x < 256" "y < 256" unfolding x_def y_def by (rule of_char_less_256)+
  have e1: "x div 4 * 4 + ((x mod 4) * 16 + y div 16) div 16 = x" using lt by simp
  have e2: "(((x mod 4) * 16 + y div 16) mod 16) * 16 + ((y mod 16) * 4) div 4 = y"
    using lt by simp
  have "char_of x = a" "char_of y = b" unfolding x_def y_def by simp_all
  with e1 e2 show ?case by (simp add: Let_def x_def[symmetric] y_def[symmetric])
next
  case (3 a)
  define x :: nat where "x = of_char a"
  have e1: "x div 4 * 4 + ((x mod 4) * 16) div 16 = x" by simp
  have "char_of x = a" unfolding x_def by simp
  with e1 show ?case by (simp add: Let_def x_def[symmetric])
next
  case 4
  then show ?case by simp
qed


lemma b64_sextets_length: "length (b64_sextets s) mod 4 = [0, 2, 3] ! (length s mod 3)"
proof (induction s rule: b64_sextets.induct)
  case (1 a b c rest)
  have "length (a # b # c # rest) mod 3 = length rest mod 3" by simp
  with 1 show ?case by (simp add: Let_def)
qed (simp_all add: Let_def)

lemma b64_char_not_special:
  "b64_char n \<noteq> CHR ''=''" "b64_char n \<noteq> CHR ''.''" "\<not> ascii_whitespace (b64_char n)"
proof -
  have m: "b64_char n \<in> set b64_alphabet" by (rule b64_char_in_alphabet)
  have a: "CHR ''='' \<notin> set b64_alphabet" by (simp add: b64_alphabet_def)
  have b: "CHR ''.'' \<notin> set b64_alphabet" by (simp add: b64_alphabet_def)
  have c: "\<forall>c \<in> set b64_alphabet. \<not> ascii_whitespace c"
    by (simp add: b64_alphabet_def ascii_whitespace_def)
  from m a show "b64_char n \<noteq> CHR ''=''" by metis
  from m b show "b64_char n \<noteq> CHR ''.''" by metis
  from m c show "\<not> ascii_whitespace (b64_char n)" by blast
qed

lemma btoa_no_dot: "CHR ''.'' \<notin> set (btoa s)"
proof -
  have "CHR ''.'' \<notin> set (map b64_char (b64_sextets s))"
    using b64_char_not_special(2) by (metis (no_types) imageE list.set_map)
  then show ?thesis by (simp add: btoa_def)
qed

lemma btoa_no_whitespace: "filter (\<lambda>c. \<not> ascii_whitespace c) (btoa s) = btoa s"
proof -
  have e: "\<not> ascii_whitespace (CHR ''='')" by (simp add: ascii_whitespace_def)
  have "\<forall>c \<in> set (btoa s). \<not> ascii_whitespace c"
  proof
    fix c assume "c \<in> set (btoa s)"
    then have "c \<in> b64_char ` set (b64_sextets s) \<or> c = CHR ''=''"
      by (auto simp: btoa_def)
    then show "\<not> ascii_whitespace c" using e b64_char_not_special(3) by blast
  qed
  then show ?thesis by (simp add: filter_id_conv)
qed

lemma strip_padding_0: "\<forall>c \<in> set xs. c \<noteq> CHR ''='' \<Longrightarrow> strip_padding xs = xs"
  by (cases xs rule: rev_cases) (simp_all add: strip_padding_def)

lemma strip_padding_1:
  assumes "\<forall>c \<in> set xs. c \<noteq> CHR ''=''"
  shows "strip_padding (xs @ [CHR ''='']) = xs"
proof -
  have "xs \<noteq> [] \<Longrightarrow> last xs \<noteq> CHR ''=''" using assms last_in_set by blast
  then show ?thesis by (auto simp: strip_padding_def Let_def)
qed

lemma strip_padding_2: "strip_padding (xs @ [CHR ''='', CHR ''='']) = xs"
proof -
  have "xs @ [CHR ''='', CHR ''=''] = (xs @ [CHR ''='']) @ [CHR ''='']" by simp
  then have "strip_padding (xs @ [CHR ''='', CHR ''='']) = strip_padding ((xs @ [CHR ''='']) @ [CHR ''=''])"
    by (rule arg_cong)
  also have "\<dots> = xs" unfolding strip_padding_def Let_def last_snoc butlast_snoc by simp
  finally show ?thesis .
qed

lemma btoa_cases:
  "(length s mod 3 = 0 \<and> length (b64_sextets s) mod 4 = 0 \<and> btoa s = map b64_char (b64_sextets s))
 \<or> (length s mod 3 = 1 \<and> length (b64_sextets s) mod 4 = 2 \<and> btoa s = map b64_char (b64_sextets s) @ [CHR ''='', CHR ''=''])
 \<or> (length s mod 3 = 2 \<and> length (b64_sextets s) mod 4 = 3 \<and> btoa s = map b64_char (b64_sextets s) @ [CHR ''=''])"
proof -
  consider "length s mod 3 = 0" | "length s mod 3 = 1" | "length s mod 3 = 2" by linarith
  then show ?thesis
  proof cases
    case 1
    then show ?thesis using b64_sextets_length[of s] by (simp add: btoa_def)
  next
    case 2
    then show ?thesis using b64_sextets_length[of s] by (simp add: btoa_def numeral_2_eq_2)
  next
    case 3
    then show ?thesis using b64_sextets_length[of s] by (simp add: btoa_def)
  qed
qed

lemma those_map_Some: "\<forall>x \<in> set xs. f x = Some (g x) \<Longrightarrow> those (map f xs) = Some (map g xs)"
  by (induction xs) simp_all

lemma those_b64_index: "those (map b64_index (map b64_char (b64_sextets s))) = Some (b64_sextets s)"
proof -
  have "\<forall>n \<in> set (b64_sextets s). (b64_index \<circ> b64_char) n = Some (id n)"
    using b64_sextets_bound[of s] b64_index_char by auto
  then have "those (map (b64_index \<circ> b64_char) (b64_sextets s)) = Some (map id (b64_sextets s))"
    by (rule those_map_Some)
  then show ?thesis by simp
qed

lemma b64_enc_no_eq: "\<forall>c \<in> set (map b64_char (b64_sextets s)). c \<noteq> CHR ''=''"
  using b64_char_not_special(1) by (metis (no_types) imageE list.set_map)

lemma atob_btoa: "atob (btoa s) = Some s"
proof -
  let ?enc = "map b64_char (b64_sextets s)"
  have dec: "map_option b64_bytes (those (map b64_index ?enc)) = Some s"
    by (simp only: those_b64_index option.map b64_bytes_sextets)
  from btoa_cases[of s] consider
      (a) "length (b64_sextets s) mod 4 = 0" "btoa s = ?enc"
    | (b) "length (b64_sextets s) mod 4 = 2" "btoa s = ?enc @ [CHR ''='', CHR ''='']"
    | (c) "length (b64_sextets s) mod 4 = 3" "btoa s = ?enc @ [CHR ''='']"
    by auto
  then have "(let d = btoa s; d' = (if length d mod 4 = 0 then strip_padding d else d)
      in if length d' mod 4 = 1 then None
         else map_option b64_bytes (those (map b64_index d'))) = Some s"
  proof cases
    case a
    have "strip_padding ?enc = ?enc" by (rule strip_padding_0[OF b64_enc_no_eq])
    with a dec show ?thesis by (simp add: Let_def)
  next
    case b
    have l: "length (?enc @ [CHR ''='', CHR ''='']) mod 4 = 0"
      using b(1) by (simp add: mod_Suc)
    have "strip_padding (?enc @ [CHR ''='', CHR ''='']) = ?enc" by (rule strip_padding_2)
    with b l dec show ?thesis by (simp add: Let_def)
  next
    case c
    have l: "length (?enc @ [CHR ''='']) mod 4 = 0"
      using c(1) by (simp add: mod_Suc)
    have "strip_padding (?enc @ [CHR ''='']) = ?enc" by (rule strip_padding_1[OF b64_enc_no_eq])
    with c l dec show ?thesis by (simp add: Let_def)
  qed
  then show ?thesis unfolding atob_def btoa_no_whitespace .
qed

subsection \<open>Token segments\<close>

lemma split_dot_nonempty: "split_dot s \<noteq> []"
  by (induction s) (auto split: list.splits)

lemma split_dot_no_dot: "CHR ''.'' \<notin> set a \<Longrightarrow> split_dot a = [a]"
  by (induction a) (auto split: list.splits)

lemma split_dot_append:
  "CHR ''.'' \<notin> set a \<Longrightarrow> split_dot (a @ CHR ''.'' # rest) = a # split_dot rest"
  by (induction a) (auto split: list.splits simp: split_dot_nonempty)

lemma split_dot_three:
  assumes "CHR ''.'' \<notin> set a" "CHR ''.'' \<notin> set b" "CHR ''.'' \<notin> set c"
  shows "split_dot (a @ ''.'' @ b @ ''.'' @ c) = [a, b, c]"
  using assms by (simp add: split_dot_append split_dot_no_dot)

subsection \<open>Row identifiers and lookups\<close>






subsection \<open>Rate limiter\<close>
lemma find_Some_mem: "find P xs = Some x \<Longrightarrow> x \<in> set xs \<and> P x"
  by (induction xs) (auto split: if_splits)

lemma rateLimit_admit:
  assumes "\<not> (case find (\<lambda>r. rl_identifier r = identifier \<and> rl_endpoint r = path
                  \<and> rl_window_start r \<ge> now - 60000)
                (filter (\<lambda>r. \<not> rl_window_start r < now - 60000) (rate_limits d)) of
              None \<Rightarrow> False | Some r \<Rightarrow> rl_count r \<ge> limit)"
  shows "rateLimit d path now identifier limit =
           (None, d\<lparr>rate_limits := rate_limit_upsert
              (filter (\<lambda>r. \<not> rl_window_start r < now - 60000) (rate_limits d))
              identifier path now\<rparr>)"
  unfolding rateLimit_def Let_def using assms by (simp only: if_False)

lemma rateLimit_reject:
  assumes "(case find (\<lambda>r. rl_identifier r = identifier \<and> rl_endpoint r = path
                  \<and> rl_window_start r \<ge> now - 60000)
                (filter (\<lambda>r. \<not> rl_window_start r < now - 60000) (rate_limits d)) of
              None \<Rightarrow> False | Some r \<Rightarrow> rl_count r \<ge> limit)"
  shows "rateLimit d path now identifier limit =
           (Some (Error ''Rate limit exceeded'', 429),
            d\<lparr>rate_limits := filter (\<lambda>r. \<not> rl_window_start r < now - 60000) (rate_limits d)\<rparr>)"
  unfolding rateLimit_def Let_def using assms by (simp only: if_True)

lemma rateLimit_fresh_instant_admitted:
  assumes "\<forall>r \<in> set (rate_limits d). rl_count r = 1 \<and> rl_window_start r < now" and "1 < limit"
  shows "fst (rateLimit d path now identifier limit) = None"
    and "\<forall>r \<in> set (rate_limits (snd (rateLimit d path now identifier limit))).
           rl_count r = 1 \<and> rl_window_start r \<le> now"
proof -
  define kept where "kept = filter (\<lambda>r. \<not> rl_window_start r < now - 60000) (rate_limits d)"
  define res where "res = find (\<lambda>r. rl_identifier r = identifier \<and> rl_endpoint r = path
                              \<and> rl_window_start r \<ge> now - 60000) kept"
  have k: "\<forall>r \<in> set kept. rl_count r = 1 \<and> rl_window_start r < now"
    using assms(1) by (simp add: kept_def)
  have c: "\<not> (case res of None \<Rightarrow> False | Some r \<Rightarrow> rl_count r \<ge> limit)"
  proof (cases res)
    case None
    then show ?thesis by simp
  next
    case (Some r)
    then have "r \<in> set kept" unfolding res_def by (rule find_Some_mem[THEN conjunct1])
    with k have "rl_count r = 1" by blast
    with assms(2) Some show ?thesis by simp
  qed
  have nk: "\<not> (\<exists>r \<in> set kept. rl_identifier r = identifier \<and> rl_endpoint r = path
           \<and> rl_window_start r = now)"
    using k by auto
  have u: "rate_limit_upsert kept identifier path now = kept @
      [\<lparr>rl_identifier = identifier, rl_endpoint = path, rl_count = 1, rl_window_start = now\<rparr>]"
    unfolding rate_limit_upsert_def using nk by (simp only: if_False)
  have r: "rateLimit d path now identifier limit =
      (None, d\<lparr>rate_limits := rate_limit_upsert kept identifier path now\<rparr>)"
    unfolding kept_def by (rule rateLimit_admit) (use c in \<open>simp add: res_def kept_def\<close>)
  show "fst (rateLimit d path now identifier limit) = None" by (simp add: r)
  have "\<forall>r \<in> set (kept @ [\<lparr>rl_identifier = identifier, rl_endpoint = path, rl_count = 1,
      rl_window_start = now\<rparr>]). rl_count r = 1 \<and> rl_window_start r \<le> now"
    using k by auto
  then show "\<forall>r \<in> set (rate_limits (snd (rateLimit d path now identifier limit))).
           rl_count r = 1 \<and> rl_window_start r \<le> now"
    by (simp add: r u)
qed

text \<open>
  C2. The claim: counters are keyed by a window start truncated to the 60-second window,
  so that with limit 5 the sixth of six rapid requests of one identifier is rejected. The
  code stamps each row with the instant of the request itself, so requests at distinct
  instants never meet in one counter: six requests one millisecond apart, limit 5, are
  all admitted.
\<close>

theorem rateLimit_six_rapid_requests_all_admitted:
  "fst (rate_limited_run empty_db ''/api/auth/register'' ''a@b.c'' 5
          [1000, 1001, 1002, 1003, 1004, 1005])
     = [True, True, True, True, True, True]"
  by (simp add: rateLimit_def rate_limit_upsert_def empty_db_def)

theorem rateLimit_six_rapid_requests_all_admitted_witness:
  "length (fst (rate_limited_run empty_db ''/api/auth/register'' ''a@b.c'' 5
          [1000, 1001, 1002, 1003, 1004, 1005])) = 6
   \<and> last (fst (rate_limited_run empty_db ''/api/auth/register'' ''a@b.c'' 5
          [1000, 1001, 1002, 1003, 1004, 1005]))"
  using rateLimit_six_rapid_requests_all_admitted by simp

text \<open>
  Only requests that carry the very same instant share a counter; then the sixth is
  rejected, and a request more than a minute later is admitted again.
\<close>

lemma rateLimit_same_instant_sixth_rejected:
  "fst (rate_limited_run empty_db ''/api/auth/register'' ''a@b.c'' 5
          [1000, 1000, 1000, 1000, 1000, 1000, 61001])
     = [True, True, True, True, True, False, True]"
  by (simp add: rateLimit_def rate_limit_upsert_def empty_db_def)



subsection \<open>Opportunities\<close>



text \<open>
  C3. The claim: an update recomputes the expected revenue whenever amount or probability
  changes, so that it stays equal to the stored amount times probability over 100. On the
  seeded opportunity (amount 2,500,000, probability 60, expected revenue 1,500,000) the
  handler does otherwise: an update of the probability alone to 50 stores an expected
  revenue of 0, since it multiplies by the amount of the request and not by the stored
  one, and an update of the amount alone to 1,000,000 leaves the expected revenue at
  1,500,000.
\<close>

theorem put_opportunities_leaves_expected_revenue_inconsistent:
  "(case put_opportunities seed_db demo_user 1 (empty_patch\<lparr>op_probability := Some 50\<rparr>)
           1700000100000 of
      ((Data (Some row), status), d') \<Rightarrow>
          status = 200 \<and> o_amount row = Some 2500000 \<and> o_probability row = 50
        \<and> o_expected_revenue row = Some 0
    | _ \<Rightarrow> False)
 \<and> (case put_opportunities seed_db demo_user 1 (empty_patch\<lparr>op_amount := Some 1000000\<rparr>)
           1700000100000 of
      ((Data (Some row), status), d') \<Rightarrow>
          status = 200 \<and> o_amount row = Some 1000000 \<and> o_probability row = 60
        \<and> o_expected_revenue row = Some 1500000
    | _ \<Rightarrow> False)"
  by (simp add: put_opportunities_def apply_updates_def Let_def seed_db_def demo_user_def
      empty_patch_def num_or_def opportunity_stages_def)

theorem put_opportunities_leaves_expected_revenue_inconsistent_witness:
  "\<exists>row d'. put_opportunities seed_db demo_user 1 (empty_patch\<lparr>op_probability := Some 50\<rparr>)
           1700000100000 = ((Data (Some row), 200), d')
     \<and> o_expected_revenue row \<noteq> Some (the (o_amount row) * o_probability row / 100)"
  using put_opportunities_leaves_expected_revenue_inconsistent
  by (auto split: prod.splits body.splits option.splits)

lemma put_opportunities_absent:
  assumes "\<forall>r \<in> set (opportunities d). \<not> (o_id r = ident \<and> o_tenant_id r = tenantId usr)"
  shows "put_opportunities d usr ident data now = ((Error ''Opportunity not found'', 404), d)"
proof -
  have "find (\<lambda>r. o_id r = ident \<and> o_tenant_id r = tenantId usr) (opportunities d) = None"
    using assms by (simp add: find_None_iff)
  then show ?thesis by (simp add: put_opportunities_def)
qed

text \<open>
  C7. When no opportunity with the given key belongs to the caller's tenant, be it that
  the key is not in use or that its row belongs to another tenant, the update answers
  404 with the one message "Opportunity not found" and leaves the store as it was.
\<close>

theorem put_opportunities_not_found:
  assumes "\<forall>r \<in> set (opportunities d). \<not> (o_id r = ident \<and> o_tenant_id r = tenantId usr)"
  shows "put_opportunities d usr ident data now = ((Error ''Opportunity not found'', 404), d)"
  using assms by (rule put_opportunities_absent)

theorem put_opportunities_not_found_witness:
  "\<not> (\<exists>r \<in> set (opportunities seed_db). o_id r = 99)
 \<and> (\<exists>r \<in> set (opportunities seed_db). o_id r = 1 \<and> o_tenant_id r \<noteq> tenantId acme_user)
 \<and> put_opportunities seed_db demo_user 99 (empty_patch\<lparr>op_amount := Some 1\<rparr>) 1700000100000
       = ((Error ''Opportunity not found'', 404), seed_db)
 \<and> put_opportunities seed_db acme_user 1 (empty_patch\<lparr>op_amount := Some 1\<rparr>) 1700000100000
       = ((Error ''Opportunity not found'', 404), seed_db)"
proof -
  have h1: "\<forall>r \<in> set (opportunities seed_db). \<not> (o_id r = 99 \<and> o_tenant_id r = tenantId demo_user)"
    by (simp add: seed_db_def demo_user_def)
  have h2: "\<forall>r \<in> set (opportunities seed_db). \<not> (o_id r = 1 \<and> o_tenant_id r = tenantId acme_user)"
    by (simp add: seed_db_def acme_user_def)
  have h3: "\<not> (\<exists>r \<in> set (opportunities seed_db). o_id r = 99)" by (simp add: seed_db_def)
  have h4: "\<exists>r \<in> set (opportunities seed_db). o_id r = 1 \<and> o_tenant_id r \<noteq> tenantId acme_user"
    by (simp add: seed_db_def acme_user_def)
  from h3 h4 put_opportunities_not_found[OF h1] put_opportunities_not_found[OF h2]
  show ?thesis by (intro conjI)
qed

subsection \<open>Rate limiting of the general routes\<close>

lemma get_handlers_status:
  "snd (fst (get_opportunities d usr st ow)) = 200" "snd (get_opportunities d usr st ow) = d"
  "snd (fst (get_contacts d usr)) = 200" "snd (get_contacts d usr) = d"
  "snd (fst (get_companies d usr)) = 200" "snd (get_companies d usr) = d"
  "snd (fst (get_captures d usr)) = 200" "snd (get_captures d usr) = d"
  "snd (fst (get_dashboard_kpis d usr)) = 200" "snd (get_dashboard_kpis d usr) = d"
  "snd (fst (get_dashboard_pipeline_by_stage d usr)) = 200"
  "snd (get_dashboard_pipeline_by_stage d usr) = d"
  by (simp_all add: get_opportunities_def get_contacts_def get_companies_def get_captures_def
      get_dashboard_kpis_def get_dashboard_pipeline_by_stage_def Let_def)

lemma write_handlers_rate_limits:
  "rate_limits (snd (post_opportunities d usr oi now)) = rate_limits d"
  "rate_limits (snd (put_opportunities d usr ident pa now)) = rate_limits d"
  "rate_limits (snd (post_contacts d usr ci)) = rate_limits d"
  "rate_limits (snd (post_companies P d usr coi)) = rate_limits d"
  "rate_limits (snd (post_captures d usr cpi now)) = rate_limits d"
  by (simp_all add: post_opportunities_def put_opportunities_def post_contacts_def
      post_companies_def post_captures_def Let_def split: option.splits)

lemma write_handlers_status:
  "snd (fst (post_opportunities d usr oi now)) \<in> {201, 500}"
  "snd (fst (put_opportunities d usr ident pa now)) \<in> {200, 404, 500}"
  "snd (fst (post_contacts d usr ci)) = 201"
  "snd (fst (post_companies P d usr coi)) \<in> {201, 500}"
  "snd (fst (post_captures d usr cpi now)) \<in> {201, 500}"
  by (simp_all add: post_opportunities_def put_opportunities_def post_contacts_def
      post_companies_def post_captures_def Let_def split: option.splits)

text \<open>
  C4. The claim: every endpoint class is guarded by the rate limiter, general traffic at
  100 requests per minute. No handler of the general routes calls it: whatever the
  counters hold, the list and dashboard handlers answer 200 and leave the store as it is,
  and the write handlers never answer 429 and leave the counters as they are.
\<close>

theorem general_api_not_rate_limited:
  "snd (fst (get_opportunities d usr st ow)) = 200 \<and> snd (get_opportunities d usr st ow) = d
 \<and> snd (fst (get_contacts d usr)) = 200 \<and> snd (get_contacts d usr) = d
 \<and> snd (fst (get_companies d usr)) = 200 \<and> snd (get_companies d usr) = d
 \<and> snd (fst (get_captures d usr)) = 200 \<and> snd (get_captures d usr) = d
 \<and> snd (fst (get_dashboard_kpis d usr)) = 200 \<and> snd (get_dashboard_kpis d usr) = d
 \<and> snd (fst (get_dashboard_pipeline_by_stage d usr)) = 200
 \<and> snd (get_dashboard_pipeline_by_stage d usr) = d
 \<and> snd (fst (post_opportunities d usr oi now)) \<noteq> 429
 \<and> rate_limits (snd (post_opportunities d usr oi now)) = rate_limits d
 \<and> snd (fst (put_opportunities d usr ident pa now)) \<noteq> 429
 \<and> rate_limits (snd (put_opportunities d usr ident pa now)) = rate_limits d
 \<and> snd (fst (post_contacts d usr ci)) \<noteq> 429
 \<and> rate_limits (snd (post_contacts d usr ci)) = rate_limits d
 \<and> snd (fst (post_companies P d usr coi)) \<noteq> 429
 \<and> rate_limits (snd (post_companies P d usr coi)) = rate_limits d
 \<and> snd (fst (post_captures d usr cpi now)) \<noteq> 429
 \<and> rate_limits (snd (post_captures d usr cpi now)) = rate_limits d"
proof -
  have "snd (fst (post_opportunities d usr oi now)) \<noteq> 429"
    using write_handlers_status(1)[of d usr oi now] by auto
  moreover have "snd (fst (put_opportunities d usr ident pa now)) \<noteq> 429"
    using write_handlers_status(2)[of d usr ident pa now] by auto
  moreover have "snd (fst (post_contacts d usr ci)) \<noteq> 429"
    using write_handlers_status(3)[of d usr ci] by auto
  moreover have "snd (fst (post_companies P d usr coi)) \<noteq> 429"
    using write_handlers_status(4)[of P d usr coi] by auto
  moreover have "snd (fst (post_captures d usr cpi now)) \<noteq> 429"
    using write_handlers_status(5)[of d usr cpi now] by auto
  ultimately show ?thesis
    by (simp only: get_handlers_status write_handlers_rate_limits simp_thms)
qed

theorem general_api_not_rate_limited_witness:
  "snd (fst (get_opportunities saturated_db demo_user None None)) = 200
 \<and> length (case fst (fst (get_opportunities saturated_db demo_user None None)) of
              Data rows \<Rightarrow> rows | _ \<Rightarrow> []) = 1
 \<and> snd (get_opportunities saturated_db demo_user None None) = saturated_db"
proof -
  note t = general_api_not_rate_limited[of saturated_db demo_user None None]
  from t have a: "snd (fst (get_opportunities saturated_db demo_user None None)) = 200"
    by (rule conjunct1)
  from t have b: "snd (get_opportunities saturated_db demo_user None None) = saturated_db"
    by (rule conjunct2[THEN conjunct1])
  have c: "length (case fst (fst (get_opportunities saturated_db demo_user None None)) of
              Data rows \<Rightarrow> rows | _ \<Rightarrow> []) = 1"
    by (simp add: get_opportunities_def Let_def saturated_db_def seed_db_def demo_user_def
      left_join_def truthy_str_def)
  from a b c show ?thesis by (intro conjI)
qed

subsection \<open>Tokens\<close>

lemma signHS256_no_dot: "CHR ''.'' \<notin> set (signHS256 P data secret)"
  by (simp add: signHS256_def btoa_no_dot)

lemma generateJWT_segments:
  "split_dot (generateJWT P payload secret now_ms) =
     [btoa (json_stringify P jwt_header),
      btoa (json_stringify P (jwtPayload payload (now_ms div 1000))),
      signHS256 P (btoa (json_stringify P jwt_header) @ ''.'' @
                   btoa (json_stringify P (jwtPayload payload (now_ms div 1000)))) secret]"
  unfolding generateJWT_def Let_def
  by (rule split_dot_three) (rule btoa_no_dot btoa_no_dot signHS256_no_dot)+

lemma get_prop_jwtPayload_exp:
  "get_prop (jwtPayload payload now) ''exp'' = Inr (Some (JNum (now + 86400)))"
  by (simp add: get_prop_def jwtPayload_def update_conv')

lemma get_prop_jwtPayload_other:
  "k \<noteq> ''iat'' \<Longrightarrow> k \<noteq> ''exp'' \<Longrightarrow> get_prop (jwtPayload payload now) k = Inr (map_of payload k)"
  by (simp add: get_prop_def jwtPayload_def update_conv')

lemma verifyJWT_generateJWT:
  assumes "json_parse P (json_stringify P (jwtPayload payload (issued div 1000)))
             = Some (jwtPayload payload (issued div 1000))"
  shows "verifyJWT P (generateJWT P payload secret issued) secret checked =
           (if issued div 1000 + 86400 < checked div 1000 then Inl TokenExpired
            else Inr (jwtPayload payload (issued div 1000)))"
  unfolding verifyJWT_def generateJWT_segments
  by (simp add: atob_btoa assms get_prop_jwtPayload_exp js_less_def)

text \<open>
  C5. A token issued for a payload and verified with the same secret yields the payload
  (with the two time claims added, every other property as it was given) as long as the
  clock of the verification, in whole seconds as the code reads it, has not passed the
  expiry claim, which is 24 hours after the second of issue; in particular at every
  instant up to 24 hours after the issue. Once the clock has passed the expiry claim the
  verification fails with "Token expired". The JSON codec is the platform's: the
  hypothesis is that it reads back the payload it wrote.
\<close>

theorem jwt_round_trip_and_expiry:
  assumes "json_parse P (json_stringify P (jwtPayload payload (issued div 1000)))
             = Some (jwtPayload payload (issued div 1000))"
  shows "(checked div 1000 \<le> issued div 1000 + 24 * 60 * 60 \<longrightarrow>
            verifyJWT P (generateJWT P payload secret issued) secret checked
              = Inr (jwtPayload payload (issued div 1000)))
       \<and> (checked \<le> issued + 24 * 60 * 60 * 1000 \<longrightarrow>
            verifyJWT P (generateJWT P payload secret issued) secret checked
              = Inr (jwtPayload payload (issued div 1000)))
       \<and> (issued div 1000 + 24 * 60 * 60 < checked div 1000 \<longrightarrow>
            verifyJWT P (generateJWT P payload secret issued) secret checked = Inl TokenExpired)
       \<and> (\<forall>k. k \<noteq> ''iat'' \<and> k \<noteq> ''exp'' \<longrightarrow>
            get_prop (jwtPayload payload (issued div 1000)) k = Inr (map_of payload k))
       \<and> get_prop (jwtPayload payload (issued div 1000)) ''iat'' = Inr (Some (JNum (issued div 1000)))
       \<and> get_prop (jwtPayload payload (issued div 1000)) ''exp''
            = Inr (Some (JNum (issued div 1000 + 24 * 60 * 60)))"
proof -
  have ms: "checked \<le> issued + 24 * 60 * 60 * 1000 \<Longrightarrow> checked div 1000 \<le> issued div 1000 + 24 * 60 * 60"
  proof -
    assume "checked \<le> issued + 24 * 60 * 60 * 1000"
    then have "checked div 1000 \<le> (issued + 86400 * 1000) div 1000"
      by (intro zdiv_mono1) simp_all
    then show ?thesis by simp
  qed
  have iat: "get_prop (jwtPayload payload (issued div 1000)) ''iat'' = Inr (Some (JNum (issued div 1000)))"
    by (simp add: get_prop_def jwtPayload_def update_conv')
  note v = verifyJWT_generateJWT[OF assms, of secret checked]
  have c1: "checked div 1000 \<le> issued div 1000 + 24 * 60 * 60 \<longrightarrow>
            verifyJWT P (generateJWT P payload secret issued) secret checked
              = Inr (jwtPayload payload (issued div 1000))"
    by (simp add: v)
  have c2: "checked \<le> issued + 24 * 60 * 60 * 1000 \<longrightarrow>
            verifyJWT P (generateJWT P payload secret issued) secret checked
              = Inr (jwtPayload payload (issued div 1000))"
    using ms c1 by blast
  have c3: "issued div 1000 + 24 * 60 * 60 < checked div 1000 \<longrightarrow>
            verifyJWT P (generateJWT P payload secret issued) secret checked = Inl TokenExpired"
    by (simp add: v)
  have c4: "\<forall>k. k \<noteq> ''iat'' \<and> k \<noteq> ''exp'' \<longrightarrow>
            get_prop (jwtPayload payload (issued div 1000)) k = Inr (map_of payload k)"
    by (simp add: get_prop_jwtPayload_other)
  have c5: "get_prop (jwtPayload payload (issued div 1000)) ''exp''
            = Inr (Some (JNum (issued div 1000 + 24 * 60 * 60)))"
    by (simp add: get_prop_jwtPayload_exp)
  from c1 c2 c3 c4 iat c5 show ?thesis by (intro conjI)
qed

lemma demo_codec:
  "json_parse demo_platform (json_stringify demo_platform (jwtPayload demo_payload (1700000000123 div 1000)))
     = Some (jwtPayload demo_payload (1700000000123 div 1000))"
  by (simp add: demo_platform_def jwtPayload_def jwt_header_def demo_payload_def)

lemma demo_token_issued: "generateJWT demo_platform demo_payload demo_secret 1700000000123 = demo_token"
  by code_simp

theorem jwt_round_trip_and_expiry_witness:
  "generateJWT demo_platform demo_payload demo_secret 1700000000123 = demo_token
 \<and> verifyJWT demo_platform demo_token demo_secret 1700086400123
       = Inr (jwtPayload demo_payload 1700000000)
 \<and> verifyJWT demo_platform demo_token demo_secret 1700086401000 = Inl TokenExpired
 \<and> get_prop (jwtPayload demo_payload 1700000000) ''tenantId'' = Inr (Some (JNum 1))"
proof -
  note within = jwt_round_trip_and_expiry[OF demo_codec, of 1700086400123 demo_secret]
  note after = jwt_round_trip_and_expiry[OF demo_codec, of 1700086401000 demo_secret]
  have a: "verifyJWT demo_platform demo_token demo_secret 1700086400123
       = Inr (jwtPayload demo_payload 1700000000)"
    using within by (simp add: demo_token_issued)
  have b: "verifyJWT demo_platform demo_token demo_secret 1700086401000 = Inl TokenExpired"
    using after by (simp add: demo_token_issued)
  have c: "get_prop (jwtPayload demo_payload 1700000000) ''tenantId'' = Inr (Some (JNum 1))"
    using within by (simp add: demo_payload_def)
  from demo_token_issued a b c show ?thesis by (intro conjI)
qed

subsection \<open>Authentication middleware\<close>

lemma bearer_prefix:
  "starts_with (''Bearer '' @ token) ''Bearer ''" "drop 7 (''Bearer '' @ token) = token"
  by simp_all

lemma read_identity_jwtPayload:
  "read_identity (jwtPayload payload now) =
     Inr \<lparr>id_userId = map_of payload ''userId'', id_tenantId = map_of payload ''tenantId'',
          id_email = map_of payload ''email'', id_role = map_of payload ''role''\<rparr>"
  by (simp add: read_identity_def get_prop_jwtPayload_other)

lemma auth_middleware_accepts:
  assumes "json_parse P (json_stringify P (jwtPayload payload (issued div 1000)))
             = Some (jwtPayload payload (issued div 1000))"
    and "\<not> str_includes path ''/auth/login''" and "\<not> str_includes path ''/auth/register''"
    and "checked div 1000 \<le> issued div 1000 + 24 * 60 * 60"
  shows "auth_middleware P \<lparr>DB = d, JWT_SECRET = secret\<rparr> path
           (Some (''Bearer '' @ generateJWT P payload secret issued)) checked =
         Next (Some \<lparr>id_userId = map_of payload ''userId'',
                     id_tenantId = map_of payload ''tenantId'',
                     id_email = map_of payload ''email'', id_role = map_of payload ''role''\<rparr>)"
proof -
  have v: "verifyJWT P (generateJWT P payload secret issued) secret checked
             = Inr (jwtPayload payload (issued div 1000))"
    using assms(4) by (simp add: verifyJWT_generateJWT[OF assms(1)])
  have s: "starts_with (''Bearer '' @ generateJWT P payload secret issued) ''Bearer ''"
    by (rule bearer_prefix)
  have dr: "drop 7 (''Bearer '' @ generateJWT P payload secret issued)
              = generateJWT P payload secret issued"
    by (rule bearer_prefix)
  show ?thesis
    unfolding auth_middleware_def using assms(2,3) s
    by (simp add: dr v read_identity_jwtPayload del: starts_with.simps)
qed

text \<open>
  C10. The gate reads the path, the authorization header, the secret and the clock, and
  nothing of the store: two runs that differ only in the store decide alike. So a token
  that was issued is accepted, with the identity of its payload, on every protected path
  and over every store, until the clock (in whole seconds) passes its expiry claim 24
  hours after the second of issue.
\<close>

theorem auth_middleware_ignores_database:
  "auth_middleware P (env\<lparr>DB := d1\<rparr>) path authHeader now
     = auth_middleware P (env\<lparr>DB := d2\<rparr>) path authHeader now
 \<and> (json_parse P (json_stringify P (jwtPayload payload (issued div 1000)))
        = Some (jwtPayload payload (issued div 1000))
      \<and> \<not> str_includes path ''/auth/login'' \<and> \<not> str_includes path ''/auth/register''
      \<and> checked div 1000 \<le> issued div 1000 + 24 * 60 * 60
    \<longrightarrow> auth_middleware P \<lparr>DB = d, JWT_SECRET = secret\<rparr> path
           (Some (''Bearer '' @ generateJWT P payload secret issued)) checked =
         Next (Some \<lparr>id_userId = map_of payload ''userId'',
                     id_tenantId = map_of payload ''tenantId'',
                     id_email = map_of payload ''email'', id_role = map_of payload ''role''\<rparr>))"
proof -
  have "auth_middleware P (env\<lparr>DB := d1\<rparr>) path authHeader now
     = auth_middleware P (env\<lparr>DB := d2\<rparr>) path authHeader now"
    by (simp add: auth_middleware_def cong: option.case_cong if_cong)
  then show ?thesis using auth_middleware_accepts by blast
qed

theorem auth_middleware_ignores_database_witness:
  "auth_middleware demo_platform \<lparr>DB = seed_db, JWT_SECRET = demo_secret\<rparr> ''/api/opportunities''
      (Some (''Bearer '' @ demo_token)) 1700086400123
     = Next (Some \<lparr>id_userId = Some (JNum 1), id_tenantId = Some (JNum 1),
                   id_email = Some (JStr ''demo@example.com''), id_role = Some (JStr ''admin'')\<rparr>)
 \<and> auth_middleware demo_platform \<lparr>DB = empty_db, JWT_SECRET = demo_secret\<rparr> ''/api/opportunities''
      (Some (''Bearer '' @ demo_token)) 1700086400123
     = Next (Some \<lparr>id_userId = Some (JNum 1), id_tenantId = Some (JNum 1),
                   id_email = Some (JStr ''demo@example.com''), id_role = Some (JStr ''admin'')\<rparr>)"
proof -
  have p: "\<not> str_includes ''/api/opportunities'' ''/auth/login''"
    "\<not> str_includes ''/api/opportunities'' ''/auth/register''" by simp_all
  have t: "(1700086400123::int) div 1000 \<le> 1700000000123 div 1000 + 24 * 60 * 60" by simp
  note w = auth_middleware_ignores_database[where P = demo_platform
      and path = "''/api/opportunities''" and payload = demo_payload
      and issued = 1700000000123 and checked = 1700086400123 and secret = demo_secret,
      THEN conjunct2, rule_format, OF conjI[OF demo_codec conjI[OF p(1) conjI[OF p(2) t]]]]
  have m: "map_of demo_payload ''userId'' = Some (JNum 1)"
    "map_of demo_payload ''tenantId'' = Some (JNum 1)"
    "map_of demo_payload ''email'' = Some (JStr ''demo@example.com'')"
    "map_of demo_payload ''role'' = Some (JStr ''admin'')"
    by (simp_all add: demo_payload_def)
  from w[where d = seed_db] w[where d = empty_db] show ?thesis
    unfolding demo_token_issued m by (intro conjI)
qed

subsection \<open>Login\<close>

lemma rateLimit_tables:
  "tenants (snd (rateLimit d path now identifier limit)) = tenants d"
  "users (snd (rateLimit d path now identifier limit)) = users d"
  "companies (snd (rateLimit d path now identifier limit)) = companies d"
  "contacts (snd (rateLimit d path now identifier limit)) = contacts d"
  "opportunities (snd (rateLimit d path now identifier limit)) = opportunities d"
  "captures (snd (rateLimit d path now identifier limit)) = captures d"
  "activity_log (snd (rateLimit d path now identifier limit)) = activity_log d"
  by (simp_all add: rateLimit_def Let_def)

lemma rateLimit_verdict:
  "fst (rateLimit d path now identifier limit) = None
   \<or> fst (rateLimit d path now identifier limit) = Some (Error ''Rate limit exceeded'', 429)"
  by (simp add: rateLimit_def Let_def)

lemma post_auth_login_unfold:
  "post_auth_login P env body now =
     (let rl = (rateLimit (DB env) ''/api/auth/login'' now (lb_email body) 10
                 :: login_result response option \<times> db) in
      case fst rl of
        Some rateLimited \<Rightarrow> (rateLimited, snd rl)
      | None \<Rightarrow>
          (case find (\<lambda>t. t_tenant_key t = lb_tenantKey body) (tenants (DB env)) of
             None \<Rightarrow> ((Error ''Invalid credentials'', 401), snd rl)
           | Some tenant \<Rightarrow>
               if t_is_active tenant = 0 then ((Error ''Invalid credentials'', 401), snd rl)
               else
                 (case find (\<lambda>u. u_tenant_id u = t_id tenant \<and> u_email u = lb_email body
                                   \<and> u_is_active u = 1) (users (DB env)) of
                    None \<Rightarrow> ((Error ''Invalid credentials'', 401), snd rl)
                  | Some usr \<Rightarrow>
                      if \<not> verifyPassword P (lb_password body) (u_password_hash usr)
                      then ((Error ''Invalid credentials'', 401), snd rl)
                      else
                        (let d2 = (snd rl)\<lparr>users := map (\<lambda>u. if u_id u = u_id usr
                                        then u\<lparr>u_last_login := Some (now div 1000)\<rparr> else u)
                                        (users (DB env))\<rparr>;
                             token = generateJWT P
                               [(''userId'', JNum (u_id usr)), (''tenantId'', JNum (t_id tenant)),
                                (''email'', JStr (u_email usr)), (''role'', JStr (u_role usr))]
                               (JWT_SECRET env) now;
                             d3 = d2\<lparr>activity_log := activity_log (DB env) @
                                    [\<lparr>al_tenant_id = t_id tenant, al_user_id = u_id usr,
                                      al_activity_type = ''login'', al_entity_type = None,
                                      al_entity_id = None,
                                      al_description = ''User logged in''\<rparr>]\<rparr>
                         in ((Data \<lparr>lr_token = token, lr_id = u_id usr, lr_email = u_email usr,
                                    lr_firstName = u_first_name usr,
                                    lr_lastName = u_last_name usr, lr_role = u_role usr,
                                    lr_tenantKey = lb_tenantKey body\<rparr>, 200), d3)))))"
proof -
  obtain v d1 where r: "(rateLimit (DB env) ''/api/auth/login'' now (lb_email body) 10
      :: login_result response option \<times> db) = (v, d1)"
    by (cases "rateLimit (DB env) ''/api/auth/login'' now (lb_email body) 10
      :: login_result response option \<times> db") simp
  have t: "tenants d1 = tenants (DB env)" "users d1 = users (DB env)"
    "activity_log d1 = activity_log (DB env)"
    using r by (auto simp: rateLimit_def Let_def split: if_splits)
  show ?thesis
    unfolding post_auth_login_def r Let_def
    by (simp add: t split: option.splits cong: option.case_cong if_cong)
qed

text \<open>
  C8. A login that fails because the tenant key is unknown, the tenant is inactive, no
  active user of the tenant has the e-mail address, or the password is wrong gets one and
  the same answer in all four cases: 401 with the message "Invalid credentials" whenever
  the rate limiter, which runs first, admits the request (its own answer, 429, being the
  only other one, and the same in all four cases too).
\<close>

theorem login_failures_uniform:
  "(let verdict = (fst (rateLimit (DB env) ''/api/auth/login'' now (lb_email body) 10)
                    :: login_result response option);
        failure = (case verdict of None \<Rightarrow> (Error ''Invalid credentials'', 401)
                   | Some limited \<Rightarrow> limited);
        tenant = find (\<lambda>t. t_tenant_key t = lb_tenantKey body) (tenants (DB env));
        account = (\<lambda>t. find (\<lambda>u. u_tenant_id u = t_id t \<and> u_email u = lb_email body
                                  \<and> u_is_active u = 1) (users (DB env)))
    in (tenant = None \<longrightarrow> fst (post_auth_login P env body now) = failure)
     \<and> (\<forall>t. tenant = Some t \<and> t_is_active t = 0
            \<longrightarrow> fst (post_auth_login P env body now) = failure)
     \<and> (\<forall>t. tenant = Some t \<and> t_is_active t \<noteq> 0 \<and> account t = None
            \<longrightarrow> fst (post_auth_login P env body now) = failure)
     \<and> (\<forall>t u. tenant = Some t \<and> t_is_active t \<noteq> 0 \<and> account t = Some u
              \<and> \<not> verifyPassword P (lb_password body) (u_password_hash u)
            \<longrightarrow> fst (post_auth_login P env body now) = failure)
     \<and> (verdict = None \<longrightarrow> failure = (Error ''Invalid credentials'', 401))
     \<and> (verdict = None \<or> verdict = Some (Error ''Rate limit exceeded'', 429)))"
proof -
  have rv: "(fst (rateLimit (DB env) ''/api/auth/login'' now (lb_email body) 10)
               :: login_result response option) = None
          \<or> (fst (rateLimit (DB env) ''/api/auth/login'' now (lb_email body) 10)
               :: login_result response option) = Some (Error ''Rate limit exceeded'', 429)"
    by (rule rateLimit_verdict)
  show ?thesis
    unfolding Let_def post_auth_login_unfold using rv by (auto split: option.splits)
qed

theorem login_failures_uniform_witness:
  "fst (post_auth_login demo_platform demo_env
          \<lparr>lb_email = ''demo@example.com'', lb_password = ''wrong'', lb_tenantKey = ''demo''\<rparr>
          1700000000123) = (Error ''Invalid credentials'', 401)
 \<and> fst (post_auth_login demo_platform demo_env
          \<lparr>lb_email = ''nobody@example.com'', lb_password = ''password123'',
            lb_tenantKey = ''demo''\<rparr>
          1700000000123) = (Error ''Invalid credentials'', 401)
 \<and> fst (post_auth_login demo_platform demo_env
          \<lparr>lb_email = ''admin@closed.example'', lb_password = ''password123'',
            lb_tenantKey = ''closed''\<rparr>
          1700000000123) = (Error ''Invalid credentials'', 401)
 \<and> fst (post_auth_login demo_platform demo_env
          \<lparr>lb_email = ''demo@example.com'', lb_password = ''password123'',
            lb_tenantKey = ''nowhere''\<rparr>
          1700000000123) = (Error ''Invalid credentials'', 401)"
proof -
  have a: "fst (post_auth_login demo_platform demo_env
          \<lparr>lb_email = ''demo@example.com'', lb_password = ''wrong'', lb_tenantKey = ''demo''\<rparr>
          1700000000123) = (Error ''Invalid credentials'', 401)"
    using login_failures_uniform[of demo_env 1700000000123
        "\<lparr>lb_email = ''demo@example.com'', lb_password = ''wrong'', lb_tenantKey = ''demo''\<rparr>"
        demo_platform]
    by (simp add: Let_def demo_env_def seed_db_def rateLimit_def verifyPassword_def
        demo_platform_def)
  have b: "fst (post_auth_login demo_platform demo_env
          \<lparr>lb_email = ''nobody@example.com'', lb_password = ''password123'',
            lb_tenantKey = ''demo''\<rparr>
          1700000000123) = (Error ''Invalid credentials'', 401)"
    using login_failures_uniform[of demo_env 1700000000123
        "\<lparr>lb_email = ''nobody@example.com'', lb_password = ''password123'',
            lb_tenantKey = ''demo''\<rparr>" demo_platform]
    by (simp add: Let_def demo_env_def seed_db_def rateLimit_def verifyPassword_def
        demo_platform_def)
  have c: "fst (post_auth_login demo_platform demo_env
          \<lparr>lb_email = ''admin@closed.example'', lb_password = ''password123'',
            lb_tenantKey = ''closed''\<rparr>
          1700000000123) = (Error ''Invalid credentials'', 401)"
    using login_failures_uniform[of demo_env 1700000000123
        "\<lparr>lb_email = ''admin@closed.example'', lb_password = ''password123'',
            lb_tenantKey = ''closed''\<rparr>" demo_platform]
    by (simp add: Let_def demo_env_def seed_db_def rateLimit_def verifyPassword_def
        demo_platform_def)
  have d: "fst (post_auth_login demo_platform demo_env
          \<lparr>lb_email = ''demo@example.com'', lb_password = ''password123'',
            lb_tenantKey = ''nowhere''\<rparr>
          1700000000123) = (Error ''Invalid credentials'', 401)"
    using login_failures_uniform[of demo_env 1700000000123
        "\<lparr>lb_email = ''demo@example.com'', lb_password = ''password123'',
            lb_tenantKey = ''nowhere''\<rparr>" demo_platform]
    by (simp add: Let_def demo_env_def seed_db_def rateLimit_def verifyPassword_def
        demo_platform_def)
  from a b c d show ?thesis by (intro conjI)
qed

lemma login_succeeds:
  "fst (post_auth_login demo_platform demo_env
          \<lparr>lb_email = ''demo@example.com'', lb_password = ''password123'', lb_tenantKey = ''demo''\<rparr>
          1700000000123)
     = (Data \<lparr>lr_token = demo_token, lr_id = 1, lr_email = ''demo@example.com'',
              lr_firstName = Some ''Demo'', lr_lastName = Some ''User'', lr_role = ''admin'',
              lr_tenantKey = ''demo''\<rparr>, 200)"
proof -
  have "generateJWT demo_platform
          [(''userId'', JNum 1), (''tenantId'', JNum 1), (''email'', JStr ''demo@example.com''),
           (''role'', JStr ''admin'')] demo_secret 1700000000123 = demo_token"
    using demo_token_issued by (simp add: demo_payload_def)
  then show ?thesis
    by (simp add: post_auth_login_def Let_def demo_env_def seed_db_def rateLimit_def
        rate_limit_upsert_def verifyPassword_def demo_platform_def[THEN arg_cong[where f = bcrypt_compare]])
qed

subsection \<open>Tenant isolation\<close>


















subsection \<open>Tampered tokens\<close>

lemma split_dot_hd: "split_dot s = takeWhile (\<lambda>c. c \<noteq> CHR ''.'') s # tl (split_dot s)"
  by (induction s) (auto split: list.splits simp: split_dot_nonempty)

lemma takeWhile_short:
  assumes "i < length xs" and "\<not> P (xs ! i)"
  shows "length (takeWhile P xs) \<le> i"
proof (rule ccontr)
  assume "\<not> length (takeWhile P xs) \<le> i"
  then have l: "i < length (takeWhile P xs)" by simp
  then have "takeWhile P xs ! i \<in> set (takeWhile P xs)" by (rule nth_mem)
  then have "P (takeWhile P xs ! i)" by (rule set_takeWhileD[THEN conjunct2])
  moreover have "takeWhile P xs ! i = xs ! i" using l by (rule takeWhile_nth)
  ultimately show False using assms(2) by simp
qed

lemma tampered_segment_differs:
  assumes "CHR ''.'' \<notin> set s" and "i < length s" and "c \<noteq> s ! i"
  shows "takeWhile (\<lambda>x. x \<noteq> CHR ''.'') (s[i := c]) \<noteq> s"
proof (cases "c = CHR ''.''")
  case True
  have "length (takeWhile (\<lambda>x. x \<noteq> CHR ''.'') (s[i := c])) \<le> i"
    using assms(2) True by (intro takeWhile_short) simp_all
  with assms(2) show ?thesis by auto
next
  case False
  have "set (s[i := c]) \<subseteq> insert c (set s)" by (rule set_update_subset_insert)
  with False assms(1) have "\<forall>x \<in> set (s[i := c]). x \<noteq> CHR ''.''" by auto
  then have e: "takeWhile (\<lambda>x. x \<noteq> CHR ''.'') (s[i := c]) = s[i := c]"
    using takeWhile_eq_all_conv[of "\<lambda>x. x \<noteq> CHR ''.''" "s[i := c]"] by blast
  have n: "s[i := c] \<noteq> s"
  proof
    assume "s[i := c] = s"
    then have "s[i := c] ! i = s ! i" by simp
    with assms(2,3) show False by simp
  qed
  show ?thesis unfolding e by (rule n)
qed

lemma verifyJWT_three_segments:
  assumes "CHR ''.'' \<notin> set h" and "CHR ''.'' \<notin> set p"
  shows "verifyJWT P (h @ ''.'' @ p @ ''.'' @ s) secret now =
           (if takeWhile (\<lambda>x. x \<noteq> CHR ''.'') s \<noteq> signHS256 P (h @ ''.'' @ p) secret
            then Inl InvalidSignature
            else (case atob p of
                    None \<Rightarrow> Inl InvalidCharacter
                  | Some text \<Rightarrow>
                      (case json_parse P text of
                         None \<Rightarrow> Inl SyntaxError
                       | Some decodedPayload \<Rightarrow>
                           (case get_prop decodedPayload ''exp'' of
                              Inl e \<Rightarrow> Inl e
                            | Inr e \<Rightarrow> if js_less P e (now div 1000) then Inl TokenExpired
                                       else Inr decodedPayload))))"
proof -
  have "split_dot (h @ ''.'' @ p @ ''.'' @ s)
          = h # p # takeWhile (\<lambda>x. x \<noteq> CHR ''.'') s # tl (split_dot s)"
    using assms split_dot_hd[of s] by (simp add: split_dot_append)
  then show ?thesis by (simp add: verifyJWT_def)
qed

lemma verifyJWT_signature_tampered:
  assumes "CHR ''.'' \<notin> set h" and "CHR ''.'' \<notin> set p"
    and "i < length (signHS256 P (h @ ''.'' @ p) secret)"
    and "c \<noteq> signHS256 P (h @ ''.'' @ p) secret ! i"
  shows "verifyJWT P (h @ ''.'' @ p @ ''.'' @ (signHS256 P (h @ ''.'' @ p) secret)[i := c]) secret now
           = Inl InvalidSignature"
proof -
  have "takeWhile (\<lambda>x. x \<noteq> CHR ''.'') ((signHS256 P (h @ ''.'' @ p) secret)[i := c])
          \<noteq> signHS256 P (h @ ''.'' @ p) secret"
    using signHS256_no_dot assms(3,4) by (rule tampered_segment_differs)
  then show ?thesis unfolding verifyJWT_three_segments[OF assms(1,2)] by simp
qed

lemma verifyJWT_payload_tampered:
  assumes "CHR ''.'' \<notin> set h" and "CHR ''.'' \<notin> set p" and "i < length p" and "c \<noteq> p ! i"
  shows "\<exists>p' rest. h @ ''.'' @ p[i := c] @ ''.'' @ s = h @ ''.'' @ p' @ ''.'' @ rest
           \<and> p' \<noteq> p
           \<and> (verifyJWT P (h @ ''.'' @ p[i := c] @ ''.'' @ s) secret now \<noteq> Inl InvalidSignature
                \<longrightarrow> takeWhile (\<lambda>x. x \<noteq> CHR ''.'') rest = signHS256 P (h @ ''.'' @ p') secret)"
proof (cases "c = CHR ''.''")
  case True
  let ?p' = "take i p" and ?rest = "drop (Suc i) p @ ''.'' @ s"
  have u: "p[i := c] = take i p @ c # drop (Suc i) p" using assms(3) by (rule upd_conv_take_nth_drop)
  have e: "h @ ''.'' @ p[i := c] @ ''.'' @ s = h @ ''.'' @ ?p' @ ''.'' @ ?rest"
    using u True by simp
  have nd: "CHR ''.'' \<notin> set ?p'" using assms(2) by (meson in_set_takeD)
  have ne: "?p' \<noteq> p"
  proof
    assume "take i p = p"
    then have "length (take i p) = length p" by simp
    with assms(3) show False by simp
  qed
  have "verifyJWT P (h @ ''.'' @ ?p' @ ''.'' @ ?rest) secret now \<noteq> Inl InvalidSignature
          \<longrightarrow> takeWhile (\<lambda>x. x \<noteq> CHR ''.'') ?rest = signHS256 P (h @ ''.'' @ ?p') secret"
    unfolding verifyJWT_three_segments[OF assms(1) nd] by simp
  with e ne show ?thesis by metis
next
  case False
  let ?p' = "p[i := c]"
  have "set ?p' \<subseteq> insert c (set p)" by (rule set_update_subset_insert)
  with False assms(2) have nd: "CHR ''.'' \<notin> set ?p'" by auto
  have ne: "?p' \<noteq> p"
  proof
    assume "p[i := c] = p"
    then have "p[i := c] ! i = p ! i" by simp
    with assms(3,4) show False by simp
  qed
  have "verifyJWT P (h @ ''.'' @ ?p' @ ''.'' @ s) secret now \<noteq> Inl InvalidSignature
          \<longrightarrow> takeWhile (\<lambda>x. x \<noteq> CHR ''.'') s = signHS256 P (h @ ''.'' @ ?p') secret"
    unfolding verifyJWT_three_segments[OF assms(1) nd] by simp
  with ne show ?thesis by blast
qed

text \<open>
  X1. Changing one character of the signature segment of an issued token, to whatever other
  character, makes the verification fail with "Invalid signature".
\<close>

theorem tampered_signature_rejected:
  assumes "i < length (signHS256 P (btoa (json_stringify P jwt_header) @ ''.'' @
                 btoa (json_stringify P (jwtPayload payload (issued div 1000)))) secret)"
    and "c \<noteq> signHS256 P (btoa (json_stringify P jwt_header) @ ''.'' @
                 btoa (json_stringify P (jwtPayload payload (issued div 1000)))) secret ! i"
  shows "generateJWT P payload secret issued =
           btoa (json_stringify P jwt_header) @ ''.'' @
           btoa (json_stringify P (jwtPayload payload (issued div 1000))) @ ''.'' @
           signHS256 P (btoa (json_stringify P jwt_header) @ ''.'' @
                 btoa (json_stringify P (jwtPayload payload (issued div 1000)))) secret
       \<and> verifyJWT P
           (btoa (json_stringify P jwt_header) @ ''.'' @
            btoa (json_stringify P (jwtPayload payload (issued div 1000))) @ ''.'' @
            (signHS256 P (btoa (json_stringify P jwt_header) @ ''.'' @
                 btoa (json_stringify P (jwtPayload payload (issued div 1000)))) secret)[i := c])
           secret now = Inl InvalidSignature"
proof -
  have "generateJWT P payload secret issued =
           btoa (json_stringify P jwt_header) @ ''.'' @
           btoa (json_stringify P (jwtPayload payload (issued div 1000))) @ ''.'' @
           signHS256 P (btoa (json_stringify P jwt_header) @ ''.'' @
                 btoa (json_stringify P (jwtPayload payload (issued div 1000)))) secret"
    by (simp add: generateJWT_def Let_def)
  moreover note verifyJWT_signature_tampered[OF btoa_no_dot btoa_no_dot assms]
  ultimately show ?thesis by (intro conjI)
qed

lemma demo_signature:
  "signHS256 demo_platform (btoa (json_stringify demo_platform jwt_header) @ ''.'' @
      btoa (json_stringify demo_platform (jwtPayload demo_payload (1700000000123 div 1000))))
      demo_secret = ''UNI/Fn9pJfovXsYPZju54W9Pi0osYTx/IX58qaw31zg=''"
  by code_simp

lemma demo_segments:
  "btoa (json_stringify demo_platform jwt_header) @ ''.'' @
      btoa (json_stringify demo_platform (jwtPayload demo_payload (1700000000123 div 1000)))
     = demo_signing_input"
  by code_simp

theorem tampered_signature_rejected_witness:
  "verifyJWT demo_platform (demo_signing_input @ ''.VNI/Fn9pJfovXsYPZju54W9Pi0osYTx/IX58qaw31zg='')
      demo_secret 1700000000123 = Inl InvalidSignature"
proof -
  have i: "0 < length (signHS256 demo_platform (btoa (json_stringify demo_platform jwt_header) @ ''.'' @
      btoa (json_stringify demo_platform (jwtPayload demo_payload (1700000000123 div 1000))))
      demo_secret)"
    unfolding demo_signature by simp
  have c: "CHR ''V'' \<noteq> signHS256 demo_platform (btoa (json_stringify demo_platform jwt_header) @ ''.'' @
      btoa (json_stringify demo_platform (jwtPayload demo_payload (1700000000123 div 1000))))
      demo_secret ! 0"
    unfolding demo_signature by simp
  from tampered_signature_rejected[OF i c, of 1700000000123, THEN conjunct2]
  have "verifyJWT demo_platform
     (btoa (json_stringify demo_platform jwt_header) @ ''.'' @
      btoa (json_stringify demo_platform (jwtPayload demo_payload (1700000000123 div 1000))) @ ''.'' @
      (''UNI/Fn9pJfovXsYPZju54W9Pi0osYTx/IX58qaw31zg='')[0 := CHR ''V''])
     demo_secret 1700000000123 = Inl InvalidSignature"
    unfolding demo_signature .
  moreover have "btoa (json_stringify demo_platform jwt_header) @ ''.'' @
      btoa (json_stringify demo_platform (jwtPayload demo_payload (1700000000123 div 1000))) @ ''.'' @
      (''UNI/Fn9pJfovXsYPZju54W9Pi0osYTx/IX58qaw31zg='')[0 := CHR ''V'']
      = (btoa (json_stringify demo_platform jwt_header) @ ''.'' @
      btoa (json_stringify demo_platform (jwtPayload demo_payload (1700000000123 div 1000)))) @
      ''.VNI/Fn9pJfovXsYPZju54W9Pi0osYTx/IX58qaw31zg=''"
    by simp
  ultimately show ?thesis unfolding demo_segments by (simp only:)
qed

text \<open>
  X2. Changing one character of the payload segment of a token leaves a token whose first
  segment is the old one and whose second segment is another one, and the verification
  fails with "Invalid signature" unless the third segment is the signature of these two:
  only a forged signature gets through.
\<close>

theorem tampered_payload_rejected_or_forged:
  assumes "CHR ''.'' \<notin> set h" and "CHR ''.'' \<notin> set p" and "i < length p" and "c \<noteq> p ! i"
  shows "\<exists>p' rest. h @ ''.'' @ p[i := c] @ ''.'' @ s = h @ ''.'' @ p' @ ''.'' @ rest
           \<and> p' \<noteq> p
           \<and> (verifyJWT P (h @ ''.'' @ p[i := c] @ ''.'' @ s) secret now \<noteq> Inl InvalidSignature
                \<longrightarrow> takeWhile (\<lambda>x. x \<noteq> CHR ''.'') rest = signHS256 P (h @ ''.'' @ p') secret)"
  using assms by (rule verifyJWT_payload_tampered)

theorem tampered_payload_rejected_or_forged_witness:
  "verifyJWT demo_platform (''eyJhbGciOiJIUzI1NiIsInR5cCI6IkpXVCJ9'' @ ''.'' @
      (''eyJ1c2VySWQiOjEsInRlbmFudElkIjoxfQ=='')[22 := CHR ''y''] @ ''.'' @ ''sig'')
      demo_secret 1700000000123 = Inl InvalidSignature"
proof -
  have h: "CHR ''.'' \<notin> set ''eyJhbGciOiJIUzI1NiIsInR5cCI6IkpXVCJ9''" by simp
  have p: "CHR ''.'' \<notin> set ''eyJ1c2VySWQiOjEsInRlbmFudElkIjoxfQ==''" by simp
  have i: "22 < length ''eyJ1c2VySWQiOjEsInRlbmFudElkIjoxfQ==''" by simp
  have c: "CHR ''y'' \<noteq> ''eyJ1c2VySWQiOjEsInRlbmFudElkIjoxfQ=='' ! 22" by simp
  from tampered_payload_rejected_or_forged[OF h p i c, of "''sig''" demo_platform demo_secret
      1700000000123]
  obtain p' rest where
    e: "''eyJhbGciOiJIUzI1NiIsInR5cCI6IkpXVCJ9'' @ ''.'' @
         (''eyJ1c2VySWQiOjEsInRlbmFudElkIjoxfQ=='')[22 := CHR ''y''] @ ''.'' @ ''sig''
        = ''eyJhbGciOiJIUzI1NiIsInR5cCI6IkpXVCJ9'' @ ''.'' @ p' @ ''.'' @ rest"
    by blast
  show ?thesis by code_simp
qed

subsection \<open>Registration\<close>

lemma tenantKey_of_acme: "tenantKey_of ''Acme Corp'' = ''acme-corp''"
  by code_simp

text \<open>
  X3. A company name that has been registered cannot be registered again: once a registration
  has answered 201, a later one whose company name gives the same tenant key answers 400
  "Company name already registered", if the rate limiter admits it.
\<close>

theorem register_twice_rejected:
  assumes "post_auth_register P d body now = ((Data (m, key, tid), 201), d')"
    and "(fst (rateLimit d' ''/api/auth/register'' now' (rb_email body') 5)
            :: (string \<times> string \<times> int) response option) = None"
    and "tenantKey_of (rb_companyName body') = tenantKey_of (rb_companyName body)"
  shows "fst (post_auth_register P d' body' now')
           = (Error ''Company name already registered'', 400)"
proof -
  obtain v d1 where r: "(rateLimit d ''/api/auth/register'' now (rb_email body) 5
      :: (string \<times> string \<times> int) response option \<times> db) = (v, d1)"
    by (cases "rateLimit d ''/api/auth/register'' now (rb_email body) 5
      :: (string \<times> string \<times> int) response option \<times> db") simp
  have "(fst (rateLimit d ''/api/auth/register'' now (rb_email body) 5)
           :: (string \<times> string \<times> int) response option) = None
       \<or> (fst (rateLimit d ''/api/auth/register'' now (rb_email body) 5)
           :: (string \<times> string \<times> int) response option)
          = Some (Error ''Rate limit exceeded'', 429)"
    by (rule rateLimit_verdict)
  then have rv: "v = None \<or> v = Some (Error ''Rate limit exceeded'', 429)"
    unfolding r by simp
  have "\<exists>t \<in> set (tenants d'). t_tenant_key t = tenantKey_of (rb_companyName body)"
    using assms(1) rv unfolding post_auth_register_def r
    by (auto simp: Let_def split: option.splits)
  then have ex: "\<exists>t \<in> set (tenants d'). t_tenant_key t = tenantKey_of (rb_companyName body')"
    using assms(3) by simp
  obtain d2 where r2: "(rateLimit d' ''/api/auth/register'' now' (rb_email body') 5
      :: (string \<times> string \<times> int) response option \<times> db) = (None, d2)"
    using assms(2) by (cases "rateLimit d' ''/api/auth/register'' now' (rb_email body') 5
      :: (string \<times> string \<times> int) response option \<times> db") simp
  have t2: "tenants d2 = tenants d'"
    using r2 by (auto simp: rateLimit_def Let_def split: if_splits)
  have "find (\<lambda>t. t_tenant_key t = tenantKey_of (rb_companyName body')) (tenants d2) \<noteq> None"
    using ex by (auto simp: t2 find_None_iff)
  then show ?thesis
    unfolding post_auth_register_def r2 by (auto simp: Let_def split: option.splits)
qed

theorem register_twice_rejected_witness:
  "fst (post_auth_register demo_platform empty_db
          \<lparr>rb_companyName = ''Acme Corp'', rb_email = ''admin@acme.example'',
            rb_password = ''password123'', rb_firstName = ''Ada'', rb_lastName = ''Admin''\<rparr> 1000)
     = (Data (''Registration successful'', ''acme-corp'', 1), 201)
 \<and> fst (post_auth_register demo_platform
          (snd (post_auth_register demo_platform empty_db
             \<lparr>rb_companyName = ''Acme Corp'', rb_email = ''admin@acme.example'',
               rb_password = ''password123'', rb_firstName = ''Ada'', rb_lastName = ''Admin''\<rparr>
             1000))
          \<lparr>rb_companyName = ''ACME  corp!'', rb_email = ''other@acme.example'',
            rb_password = ''password123'', rb_firstName = ''Bo'', rb_lastName = ''Other''\<rparr> 2000)
     = (Error ''Company name already registered'', 400)"
proof -
  let ?b1 = "\<lparr>rb_companyName = ''Acme Corp'', rb_email = ''admin@acme.example'',
            rb_password = ''password123'', rb_firstName = ''Ada'', rb_lastName = ''Admin''\<rparr>"
  let ?b2 = "\<lparr>rb_companyName = ''ACME  corp!'', rb_email = ''other@acme.example'',
            rb_password = ''password123'', rb_firstName = ''Bo'', rb_lastName = ''Other''\<rparr>"
  let ?d' = "snd (post_auth_register demo_platform empty_db ?b1 1000)"
  have f: "fst (post_auth_register demo_platform empty_db ?b1 1000)
             = (Data (''Registration successful'', ''acme-corp'', 1), 201)"
    by code_simp
  then have a1: "post_auth_register demo_platform empty_db ?b1 1000
             = ((Data (''Registration successful'', ''acme-corp'', 1), 201), ?d')"
    by (simp add: prod_eq_iff)
  have a2: "(fst (rateLimit ?d' ''/api/auth/register'' 2000 (rb_email ?b2) 5)
            :: (string \<times> string \<times> int) response option) = None"
    by code_simp
  have a3: "tenantKey_of (rb_companyName ?b2) = tenantKey_of (rb_companyName ?b1)"
    by code_simp
  from f register_twice_rejected[OF a1 a2 a3] show ?thesis by (intro conjI)
qed

subsection \<open>Rate limiting of the authentication routes\<close>

text \<open>
  X4. The two authentication routes do consult the limiter, keyed by the e-mail address of
  the body: when the first live counter of that address on the route has reached 5, a
  registration is answered 429, and when it has reached 10, a login is, whatever the
  credentials.
\<close>

theorem auth_routes_rate_limited:
  "(\<forall>r. find (\<lambda>r. rl_identifier r = rb_email rbody \<and> rl_endpoint r = ''/api/auth/register''
                     \<and> rl_window_start r \<ge> now - 60000)
            (filter (\<lambda>r. \<not> rl_window_start r < now - 60000) (rate_limits d)) = Some r
        \<and> rl_count r \<ge> 5
      \<longrightarrow> fst (post_auth_register P d rbody now) = (Error ''Rate limit exceeded'', 429))
 \<and> (\<forall>r. find (\<lambda>r. rl_identifier r = lb_email lbody \<and> rl_endpoint r = ''/api/auth/login''
                     \<and> rl_window_start r \<ge> now - 60000)
            (filter (\<lambda>r. \<not> rl_window_start r < now - 60000) (rate_limits (DB env))) = Some r
        \<and> rl_count r \<ge> 10
      \<longrightarrow> fst (post_auth_login P env lbody now) = (Error ''Rate limit exceeded'', 429))"
proof (intro conjI allI impI)
  fix r
  assume a: "find (\<lambda>r. rl_identifier r = rb_email rbody \<and> rl_endpoint r = ''/api/auth/register''
                     \<and> rl_window_start r \<ge> now - 60000)
            (filter (\<lambda>r. \<not> rl_window_start r < now - 60000) (rate_limits d)) = Some r
        \<and> rl_count r \<ge> 5"
  have "(rateLimit d ''/api/auth/register'' now (rb_email rbody) 5
           :: (string \<times> string \<times> int) response option \<times> db) =
           (Some (Error ''Rate limit exceeded'', 429),
            d\<lparr>rate_limits := filter (\<lambda>r. \<not> rl_window_start r < now - 60000) (rate_limits d)\<rparr>)"
    by (rule rateLimit_reject) (use a in simp)
  then show "fst (post_auth_register P d rbody now) = (Error ''Rate limit exceeded'', 429)"
    by (simp add: post_auth_register_def)
next
  fix r
  assume a: "find (\<lambda>r. rl_identifier r = lb_email lbody \<and> rl_endpoint r = ''/api/auth/login''
                     \<and> rl_window_start r \<ge> now - 60000)
            (filter (\<lambda>r. \<not> rl_window_start r < now - 60000) (rate_limits (DB env))) = Some r
        \<and> rl_count r \<ge> 10"
  have "(rateLimit (DB env) ''/api/auth/login'' now (lb_email lbody) 10
           :: login_result response option \<times> db) =
           (Some (Error ''Rate limit exceeded'', 429),
            (DB env)\<lparr>rate_limits := filter (\<lambda>r. \<not> rl_window_start r < now - 60000)
                                  (rate_limits (DB env))\<rparr>)"
    by (rule rateLimit_reject) (use a in simp)
  then show "fst (post_auth_login P env lbody now) = (Error ''Rate limit exceeded'', 429)"
    by (simp add: post_auth_login_def)
qed

theorem auth_routes_rate_limited_witness:
  "fst (post_auth_login demo_platform
         (demo_env\<lparr>DB := seed_db\<lparr>rate_limits :=
            [\<lparr>rl_identifier = ''demo@example.com'', rl_endpoint = ''/api/auth/login'',
              rl_count = 10, rl_window_start = 1700000000123\<rparr>]\<rparr>\<rparr>)
         \<lparr>lb_email = ''demo@example.com'', lb_password = ''password123'', lb_tenantKey = ''demo''\<rparr>
         1700000000123)
     = (Error ''Rate limit exceeded'', 429)"
proof -
  let ?row = "\<lparr>rl_identifier = ''demo@example.com'', rl_endpoint = ''/api/auth/login'',
              rl_count = 10, rl_window_start = 1700000000123\<rparr>"
  let ?env = "demo_env\<lparr>DB := seed_db\<lparr>rate_limits := [?row]\<rparr>\<rparr>"
  let ?body = "\<lparr>lb_email = ''demo@example.com'', lb_password = ''password123'',
                lb_tenantKey = ''demo''\<rparr>"
  have h: "find (\<lambda>r. rl_identifier r = lb_email ?body \<and> rl_endpoint r = ''/api/auth/login''
                     \<and> rl_window_start r \<ge> 1700000000123 - 60000)
            (filter (\<lambda>r. \<not> rl_window_start r < 1700000000123 - 60000) (rate_limits (DB ?env)))
            = Some ?row \<and> rl_count ?row \<ge> 10"
    by simp
  from auth_routes_rate_limited[where lbody = ?body and now = 1700000000123 and env = ?env
      and P = demo_platform, THEN conjunct2, rule_format, OF h]
  show ?thesis .
qed

end
